theory Spec2Isabelle
  imports Complex_Main "HOL-Library.Word"
begin

unbundle bit_operations_syntax

section \<open>Data model\<close>

text \<open>
  The program is a single Python class, \<open>SMSGamerProtocol\<close>
  (\<open>sms_nobreak_addon/sms_gamer_ups_monitor.py\<close>; \<open>add-on/SMS_monitor.py\<close> is its older
  variant with the same codec). Python integers are unbounded and are modelled as
  \<open>int\<close>; a \<open>bytes\<close> object is a list of 8-bit words; strings are lists of 8-bit
  characters (UTF-8 where the source text is not ASCII).
\<close>

type_synonym byte = "8 word"
type_synonym bytes = "byte list"

text \<open>The exceptions the modelled code can meet.\<close>

datatype py_exception =
    ValueError
  | StructError
  | IndexError
  | AttributeError
  | TypeError
  | UnicodeDecodeError
  | JSONDecodeError
  | RecursionError
  | SerialException

text \<open>Sequencing of steps that may raise: the first exception ends the computation.\<close>

definition and_then :: "py_exception + 'a \<Rightarrow> ('a \<Rightarrow> py_exception + 'b) \<Rightarrow> py_exception + 'b" where
  "and_then r f = (case r of Inl e \<Rightarrow> Inl e | Inr v \<Rightarrow> f v)"

section \<open>Codec: command frames\<close>

text \<open>
  \<^verbatim>\<open>return (-1 * (cmd_byte + p1 + p2 + p3 + p4)) & 0xFF\<close>
\<close>

definition calculate_checksum :: "int \<Rightarrow> int \<Rightarrow> int \<Rightarrow> int \<Rightarrow> int \<Rightarrow> int" where
  "calculate_checksum cmd_byte p1 p2 p3 p4 = (-1 * (cmd_byte + p1 + p2 + p3 + p4)) AND 255"

text \<open>
  \<open>struct.pack\<close> with the format character \<open>B\<close>: an unsigned byte; an argument outside
  \<open>0..255\<close> raises \<open>struct.error\<close>.
\<close>

definition pack_B :: "int \<Rightarrow> py_exception + byte" where
  "pack_B x = (if 0 \<le> x \<and> x \<le> 255 then Inr (word_of_int x) else Inl StructError)"

fun struct_pack_B :: "int list \<Rightarrow> py_exception + bytes" where
  "struct_pack_B [] = Inr []"
| "struct_pack_B (x # xs) =
     and_then (pack_B x) (\<lambda>b. and_then (struct_pack_B xs) (\<lambda>bs. Inr (b # bs)))"

text \<open>
  \<^verbatim>\<open>checksum = self.calculate_checksum(cmd_byte, p1, p2, p3, p4)
return struct.pack('BBBBBB', cmd_byte, p1, p2, p3, p4, checksum) + b'\r'\<close>
\<close>

definition build_full_command :: "int \<Rightarrow> int \<Rightarrow> int \<Rightarrow> int \<Rightarrow> int \<Rightarrow> py_exception + bytes" where
  "build_full_command cmd_byte p1 p2 p3 p4 =
     (let checksum = calculate_checksum cmd_byte p1 p2 p3 p4
      in and_then (struct_pack_B [cmd_byte, p1, p2, p3, p4, checksum]) (\<lambda>packed. Inr (packed @ [0x0D])))"

section \<open>Codec: the reply to the \<open>Q\<close> command\<close>

text \<open>Python's \<open>b[i:j]\<close> for \<open>0 \<le> i \<le> j\<close>: never raises, may be shorter than \<open>j - i\<close>.\<close>

definition slice_of :: "'a list \<Rightarrow> nat \<Rightarrow> nat \<Rightarrow> 'a list" where
  "slice_of xs i j = take (j - i) (drop i xs)"

text \<open>Python's \<open>b[i]\<close> for \<open>i \<ge> 0\<close>: \<open>IndexError\<close> out of range.\<close>

definition index :: "'a list \<Rightarrow> nat \<Rightarrow> py_exception + 'a" where
  "index xs i = (if i < length xs then Inr (xs ! i) else Inl IndexError)"

text \<open>
  \<open>struct.unpack(">I", b)[0]\<close> and \<open>struct.unpack(">H", b)[0]\<close>: a big-endian unsigned
  integer of exactly 4, respectively 2, bytes; any other length raises \<open>struct.error\<close>.
\<close>

definition big_endian :: "bytes \<Rightarrow> nat" where
  "big_endian b = foldl (\<lambda>acc x. acc * 256 + unat x) 0 b"

definition struct_unpack :: "nat \<Rightarrow> bytes \<Rightarrow> py_exception + nat" where
  "struct_unpack n b = (if length b = n then Inr (big_endian b) else Inl StructError)"

text \<open>
  The telemetry fields are \<open>raw / 10.0\<close>, rounded with \<open>round(x, 1)\<close>. They are modelled
  by the exact decimal value: Python holds the double nearest to it, which prints as that
  decimal. \<open>round(x, 1)\<close> rounds to one decimal place, halves to the even digit.
\<close>

definition round1 :: "rat \<Rightarrow> rat" where
  "round1 x =
     (let s = x * 10; f = \<lfloor>s\<rfloor>; r = s - of_int f
      in of_int (if r < 1 / 2 then f else if 1 / 2 < r then f + 1
                 else if even f then f else f + 1) / 10)"

text \<open>\<open>f"{extra:08b}"\<close> for a byte: its eight bits, most significant first.\<close>

definition format_08b :: "byte \<Rightarrow> string" where
  "format_08b extra = map (\<lambda>i. if bit extra i then CHR ''1'' else CHR ''0'') [7, 6, 5, 4, 3, 2, 1, 0]"

text \<open>\<open>bytes.hex()\<close>: two lower-case hexadecimal digits for each byte.\<close>

definition hex_digit :: "nat \<Rightarrow> char" where
  "hex_digit d = ''0123456789abcdef'' ! d"

definition hex :: "bytes \<Rightarrow> string" where
  "hex b = concat (map (\<lambda>x. [hex_digit (unat x div 16), hex_digit (unat x mod 16)]) b)"

text \<open>\<open>sep.join(xs)\<close>\<close>

fun join :: "string \<Rightarrow> string list \<Rightarrow> string" where
  "join sep [] = []"
| "join sep [x] = x"
| "join sep (x # y # ys) = x @ sep @ join sep (y # ys)"

text \<open>
  The dictionary \<open>flags_bits\<close>, in the order it is written (the order in which
  \<open>.items()\<close> yields it).
\<close>

definition flags_bits :: "(nat \<times> string) list" where
  "flags_bits =
     [(7, ''BateriaEmUso''),
      (6, ''BateriaBaixa''),
      (5, ''ByPass''),
      (4, ''Boost''),
      (3, ''UpsOk''),
      (2, ''TesteAtivo''),
      (1, ''ShutdownAtivo''),
      (0, ''BeepLigado'')]"

text \<open>
  \<^verbatim>\<open>flags_on = [name for bit, name in flags_bits.items() if extra & (1 << bit)]
flags_str = ', '.join(flags_on) if flags_on else 'nenhuma flag ativa'\<close>
\<close>

definition flags_on :: "byte \<Rightarrow> string list" where
  "flags_on extra = map snd (filter (\<lambda>(b, name). extra AND push_bit b 1 \<noteq> 0) flags_bits)"

definition flags_str :: "byte \<Rightarrow> string" where
  "flags_str extra = (if flags_on extra \<noteq> [] then join '', '' (flags_on extra) else ''nenhuma flag ativa'')"

text \<open>The dictionary \<open>data\<close> that \<open>_interpret_q_response\<close> returns.\<close>

record status =
  vin :: rat
  vout :: rat
  load_percent :: rat
  frequency :: rat
  battery_percent :: rat
  temperature :: rat
  extra_flags_raw :: byte
  extra_flags_binary :: string
  active_flags :: "string list"
  active_flags_str :: string
  raw_response_hex :: string
  timestamp :: string

text \<open>
  \<open>_interpret_q_response\<close> returns \<open>None\<close> on two paths, told apart here: the length
  guard at its head (\<open>ShortResponse\<close>) and the \<open>except Exception\<close> around the decoding
  (\<open>MalformedResponse\<close>, with the exception caught).
\<close>

datatype decode_error = ShortResponse | MalformedResponse py_exception

text \<open>
  The body of the \<open>try\<close>. \<open>now\<close> is what \<open>time.strftime('%Y-%m-%d %H:%M:%S')\<close>
  returns. The terminator test reads \<open>response[-1]\<close>, the last byte; the guard before the
  \<open>try\<close> has made sure there is one.
\<close>

definition interpret_body :: "string \<Rightarrow> bytes \<Rightarrow> py_exception + status" where
  "interpret_body now response0 =
     (let response = (if last response0 = 0x0D then butlast response0 else response0) in
      and_then (struct_unpack 4 (slice_of response 1 5)) (\<lambda>vin_raw.
      and_then (struct_unpack 2 (slice_of response 5 7)) (\<lambda>vout_raw.
      and_then (struct_unpack 2 (slice_of response 7 9)) (\<lambda>power_raw.
      and_then (struct_unpack 2 (slice_of response 9 11)) (\<lambda>freq_raw.
      and_then (struct_unpack 2 (slice_of response 11 13)) (\<lambda>batt_raw.
      and_then (struct_unpack 2 (slice_of response 13 15)) (\<lambda>temp_raw.
      and_then (index response 15) (\<lambda>extra.
      Inr \<lparr>vin = round1 (of_nat vin_raw / 10),
           vout = round1 (of_nat vout_raw / 10),
           load_percent = round1 (of_nat power_raw / 10),
           frequency = round1 (of_nat freq_raw / 10),
           battery_percent = round1 (of_nat batt_raw / 10),
           temperature = round1 (of_nat temp_raw / 10),
           extra_flags_raw = extra,
           extra_flags_binary = format_08b extra,
           active_flags = flags_on extra,
           active_flags_str = flags_str extra,
           raw_response_hex = hex response,
           timestamp = now\<rparr>))))))))"

text \<open>
  \<^verbatim>\<open>if not response or len(response) < 17:
    logger.warning(...)
    return None
try:
    ...
except Exception as e:
    logger.error(...)
    return None\<close>
\<close>

definition interpret_q_response :: "string \<Rightarrow> bytes \<Rightarrow> decode_error + status" where
  "interpret_q_response now response =
     (if response = [] \<or> length response < 17 then Inl ShortResponse
      else case interpret_body now response of
             Inl e \<Rightarrow> Inl (MalformedResponse e)
           | Inr data \<Rightarrow> Inr data)"

text \<open>
  The reply used as the worked example of the decoder:
  \<open>00, 00 00 09 60, 00 E6, 00 00, 02 58, 03 84, 01 F4, 81, 0D\<close>.
\<close>

definition example_response :: bytes where
  "example_response =
     [0x00, 0x00, 0x00, 0x09, 0x60, 0x00, 0xE6, 0x00, 0x00, 0x02, 0x58, 0x03, 0x84, 0x01, 0xF4,
      0x81, 0x0D]"

section \<open>The command registry\<close>

text \<open>
  The module constants of the newer variant. \<open>SMS_GAMER_COMMANDS_PARAMS\<close> maps a command
  key to \<open>(cmd_byte, p1, p2, p3, p4)\<close>; \<open>simple_commands_map\<close> is the dictionary that
  \<open>__init__\<close> builds. Both are written in the order of the source. (The older variant
  registers two more keys, \<open>zzz\<close> and \<open>zz1\<close>.)
\<close>

definition SMS_GAMER_COMMANDS_PARAMS :: "(string \<times> int \<times> int \<times> int \<times> int \<times> int) list" where
  "SMS_GAMER_COMMANDS_PARAMS =
     [(''Q'', 0x51, 0xFF, 0xFF, 0xFF, 0xFF),
      (''I'', 0x49, 0xFF, 0xFF, 0xFF, 0xFF),
      (''F'', 0x46, 0xFF, 0xFF, 0xFF, 0xFF),
      (''M'', 0x4D, 0xFF, 0xFF, 0xFF, 0xFF),
      (''D'', 0x44, 0xFF, 0xFF, 0xFF, 0xFF),
      (''C'', 0x43, 0xFF, 0xFF, 0xFF, 0xFF),
      (''G'', 0x47, 0x01, 0xFF, 0xFF, 0xFF),
      (''L'', 0x4C, 0xFF, 0xFF, 0xFF, 0xFF),
      (''T'', 0x54, 0x00, 0x10, 0x00, 0x00),
      (''T1'', 0x54, 0x00, 0x64, 0x00, 0x00),
      (''T2'', 0x54, 0x00, 0xC8, 0x00, 0x00),
      (''T3'', 0x54, 0x01, 0x2C, 0x00, 0x00),
      (''T9'', 0x54, 0x03, 0x84, 0x00, 0x00),
      (''R'', 0x52, 0x00, 0xC8, 0x27, 0x0F)]"

definition simple_commands_map :: "(string \<times> int) list" where
  "simple_commands_map = [(''Q'', 0x51), (''I'', 0x49), (''F'', 0x46)]"

definition HA_DISCOVERY_PREFIX :: string where
  "HA_DISCOVERY_PREFIX = ''homeassistant''"

definition MQTT_CLIENT_ID :: string where
  "MQTT_CLIENT_ID = ''sms_gamer_monitor''"

definition MQTT_TOPIC_BASE :: string where
  "MQTT_TOPIC_BASE = ''sms_gamer/ups''"

definition DEVICE_NAME :: string where
  "DEVICE_NAME = ''SMS Gamer UPS''"

definition DEVICE_MANUFACTURER :: string where
  "DEVICE_MANUFACTURER = ''SMS''"

definition DEVICE_MODEL :: string where
  "DEVICE_MODEL = ''Gamer''"

definition DEVICE_SW_VERSION :: string where
  "DEVICE_SW_VERSION = ''v7''"

section \<open>The bridge: state and effects\<close>

text \<open>
  A JSON value as \<open>json.loads\<close> returns it and \<open>json.dumps\<close> takes it. A dictionary is
  the list of its items in insertion order, with distinct keys.
\<close>

datatype json =
    JNull
  | JBool bool
  | JNum rat
  | JStr string
  | JArr "json list"
  | JObj "(string \<times> json) list"

text \<open>
  The calls the object makes on the outside world, in the order it makes them:
  \<open>self.serial.write(b)\<close>, \<open>time.sleep\<close> (in milliseconds: \<open>time.sleep(0.2)\<close> is
  \<open>Sleep 200\<close>, \<open>time.sleep(1)\<close> is \<open>Sleep 1000\<close>), \<open>self.serial.read(n)\<close>,
  \<open>client.subscribe(topic)\<close> and \<open>client.publish(topic, payload, qos, retain)\<close>. The
  payload of a publication is \<open>None\<close> or \<open>json.dumps\<close> of a value.
\<close>

datatype mqtt_payload = NoPayload | JsonDumps json

datatype io_call =
    SerialWrite bytes
  | Sleep nat
  | SerialRead nat
  | Subscribe string
  | Publish string mqtt_payload nat bool

text \<open>The calls on the logger: the level and what the message reports.\<close>

datatype level = DEBUG | INFO | WARNING | ERROR

datatype log_msg =
    SendingCommand string bytes
  | ResponseReceived bytes
  | NoResponse
  | SendError string py_exception
  | CommandNotFound string
  | SerialNotConnected
  | SendingPredefined string bytes
  | NoResponsePredefined string
  | SendPredefinedError string py_exception
  | MqttConnected
  | SubscribedTo string
  | ClearedRetained string
  | MqttConnectFailed int
  | MqttClientMissing
  | DiscoveryPublished string string
  | DiscoveryPublishedBinary string string
  | MessageReceived string
  | CommandSent string
  | CommandNotRecognized json
  | NoCommandKey
  | JsonDecodeFailed
  | CommandProcessingError py_exception

text \<open>
  The fields of the object that the modelled methods read (\<open>self.connected\<close>,
  \<open>self.serial\<close>, \<open>self.mqtt_client\<close>; \<open>None\<close> is \<open>None\<close>), together with the calls
  made so far on the serial port, the clock and the MQTT client, and the log records
  emitted so far, oldest first.
\<close>

record serial_port =
  port :: string
  baudrate :: int
  is_open :: bool

record session =
  connected :: bool
  serial :: "serial_port option"
  mqtt_client :: "string option"
  calls :: "io_call list"
  logged :: "(level \<times> log_msg) list"

text \<open>The object as \<open>__init__\<close> leaves it: nothing connected, nothing done yet.\<close>

definition init_session :: session where
  "init_session = \<lparr>connected = False, serial = None, mqtt_client = None, calls = [], logged = []\<rparr>"

text \<open>
  The object once \<open>connect()\<close> and \<open>connect_mqtt()\<close> have succeeded, with the default
  line settings.
\<close>

definition connected_session :: session where
  "connected_session =
     \<lparr>connected = True,
      serial = Some \<lparr>port = ''/dev/ttyUSB0'', baudrate = 2400, is_open = True\<rparr>,
      mqtt_client = Some MQTT_CLIENT_ID, calls = [], logged = []\<rparr>"

definition emit :: "level \<Rightarrow> log_msg \<Rightarrow> session \<Rightarrow> session" where
  "emit lvl msg s = s\<lparr>logged := logged s @ [(lvl, msg)]\<rparr>"

definition perform :: "io_call \<Rightarrow> session \<Rightarrow> session" where
  "perform c s = s\<lparr>calls := calls s @ [c]\<rparr>"

section \<open>The bridge: sending commands\<close>

text \<open>
  What the serial port does is not the program's choice: \<open>wr\<close> is the exception that
  \<open>self.serial.write\<close> raises, if it raises one, and \<open>rd\<close> is what
  \<open>self.serial.read(64)\<close> raises or returns.

  \<^verbatim>\<open>if command_char not in self.simple_commands_map:
    raise ValueError(...)
cmd_byte = self.simple_commands_map[command_char]
cmd_packet = self.build_full_command(cmd_byte, 0xFF, 0xFF, 0xFF, 0xFF)
if not self.connected or not self.serial:
    return None
try:
    logger.debug(...)
    self.serial.write(cmd_packet)
    time.sleep(0.2)
    response = self.serial.read(64)
    if response:
        logger.debug(...)
        return response
    else:
        logger.warning(...)
        return None
except Exception as e:
    logger.error(...)
    return None\<close>
\<close>

definition send_simple_command ::
  "session \<Rightarrow> string \<Rightarrow> py_exception option \<Rightarrow> py_exception + bytes
     \<Rightarrow> py_exception + (bytes option \<times> session)" where
  "send_simple_command s command_char wr rd =
     (case map_of simple_commands_map command_char of
        None \<Rightarrow> Inl ValueError
      | Some cmd_byte \<Rightarrow>
          and_then (build_full_command cmd_byte 0xFF 0xFF 0xFF 0xFF) (\<lambda>cmd_packet.
            if \<not> connected s \<or> serial s = None then Inr (None, s)
            else
              let s1 = emit DEBUG (SendingCommand command_char cmd_packet) s;
                  s2 = perform (SerialWrite cmd_packet) s1
              in case wr of
                   Some e \<Rightarrow> Inr (None, emit ERROR (SendError command_char e) s2)
                 | None \<Rightarrow>
                     let s3 = perform (Sleep 200) s2;
                         s4 = perform (SerialRead 64) s3
                     in case rd of
                          Inl e \<Rightarrow> Inr (None, emit ERROR (SendError command_char e) s4)
                        | Inr response \<Rightarrow>
                            if response \<noteq> [] then
                              Inr (Some response, emit DEBUG (ResponseReceived response) s4)
                            else Inr (None, emit WARNING NoResponse s4)))"

text \<open>
  \<^verbatim>\<open>params = SMS_GAMER_COMMANDS_PARAMS.get(command_key)
if not params:
    logger.error(...)
    return None
cmd_byte, p1, p2, p3, p4 = params
cmd_packet = self.build_full_command(cmd_byte, p1, p2, p3, p4)
if not self.connected or not self.serial:
    logger.error(...)
    return None
try:
    logger.info(...)
    self.serial.write(cmd_packet)
    time.sleep(1)
    response = self.serial.read(64)
    if response:
        logger.info(...)
        return response
    else:
        logger.warning(...)
        return None
except Exception as e:
    logger.error(...)
    return None\<close>
\<close>

definition send_predefined_command ::
  "session \<Rightarrow> string \<Rightarrow> py_exception option \<Rightarrow> py_exception + bytes
     \<Rightarrow> py_exception + (bytes option \<times> session)" where
  "send_predefined_command s command_key wr rd =
     (case map_of SMS_GAMER_COMMANDS_PARAMS command_key of
        None \<Rightarrow> Inr (None, emit ERROR (CommandNotFound command_key) s)
      | Some (cmd_byte, p1, p2, p3, p4) \<Rightarrow>
          and_then (build_full_command cmd_byte p1 p2 p3 p4) (\<lambda>cmd_packet.
            if \<not> connected s \<or> serial s = None then
              Inr (None, emit ERROR SerialNotConnected s)
            else
              let s1 = emit INFO (SendingPredefined command_key cmd_packet) s;
                  s2 = perform (SerialWrite cmd_packet) s1
              in case wr of
                   Some e \<Rightarrow> Inr (None, emit ERROR (SendPredefinedError command_key e) s2)
                 | None \<Rightarrow>
                     let s3 = perform (Sleep 1000) s2;
                         s4 = perform (SerialRead 64) s3
                     in case rd of
                          Inl e \<Rightarrow> Inr (None, emit ERROR (SendPredefinedError command_key e) s4)
                        | Inr response \<Rightarrow>
                            if response \<noteq> [] then
                              Inr (Some response, emit INFO (ResponseReceived response) s4)
                            else Inr (None, emit WARNING (NoResponsePredefined command_key) s4)))"

section \<open>The bridge: MQTT discovery and the connect handler\<close>

text \<open>
  Python dictionaries under construction: \<open>d[k] = v\<close> replaces the value of a key that is
  present and appends a new key at the end; \<open>d.update(items)\<close> does so for each item in
  turn.
\<close>

fun dict_set :: "(string \<times> json) list \<Rightarrow> string \<Rightarrow> json \<Rightarrow> (string \<times> json) list" where
  "dict_set [] k v = [(k, v)]"
| "dict_set ((k', v') # d) k v = (if k' = k then (k', v) # d else (k', v') # dict_set d k v)"

definition dict_update :: "(string \<times> json) list \<Rightarrow> (string \<times> json) list \<Rightarrow> (string \<times> json) list" where
  "dict_update d items = foldl (\<lambda>d (k, v). dict_set d k v) d items"

text \<open>\<open>str.lower()\<close> on ASCII text: the letters \<open>A\<close> to \<open>Z\<close> are the codes 65 to 90.\<close>

definition lower_char :: "char \<Rightarrow> char" where
  "lower_char c =
     (let n = (of_char c :: nat) in if 65 \<le> n \<and> n \<le> 90 then char_of (n + 32) else c)"

definition lower :: "string \<Rightarrow> string" where
  "lower s = map lower_char s"

definition device_info :: json where
  "device_info =
     JObj [(''identifiers'', JArr [JStr MQTT_CLIENT_ID]),
           (''name'', JStr DEVICE_NAME),
           (''manufacturer'', JStr DEVICE_MANUFACTURER),
           (''model'', JStr DEVICE_MODEL),
           (''sw_version'', JStr DEVICE_SW_VERSION)]"

text \<open>
  The literal tables of \<open>publish_discovery_messages\<close>. Every inner dictionary has a
  \<open>name\<close> item, which the code reads with \<open>config['name']\<close> and leaves out when it
  copies the others; an entry is written here as the key, the name and the list of the
  other items, in the order of the source. All the values are strings. The degree sign of the
  unit of temperature is its two UTF-8 bytes.
\<close>

definition sensors_to_discover :: "(string \<times> string \<times> (string \<times> string) list) list" where
  "sensors_to_discover =
     [(''vin'', ''Input Voltage'',
         [(''unit_of_measurement'', ''V''), (''device_class'', ''voltage''),
          (''state_class'', ''measurement'')]),
      (''vout'', ''Output Voltage'',
         [(''unit_of_measurement'', ''V''), (''device_class'', ''voltage''),
          (''state_class'', ''measurement'')]),
      (''load_percent'', ''Load Percent'',
         [(''unit_of_measurement'', ''%''), (''icon'', ''mdi:gauge''),
          (''state_class'', ''measurement'')]),
      (''frequency'', ''Frequency'',
         [(''unit_of_measurement'', ''Hz''), (''device_class'', ''frequency''),
          (''state_class'', ''measurement'')]),
      (''battery_percent'', ''Battery Percent'',
         [(''unit_of_measurement'', ''%''), (''device_class'', ''battery''),
          (''state_class'', ''measurement'')]),
      (''temperature'', ''Temperature'',
         [(''unit_of_measurement'', [CHR 0xC2, CHR 0xB0, CHR ''C'']), (''device_class'', ''temperature''),
          (''state_class'', ''measurement'')]),
      (''active_flags_str'', ''Active Flags'',
         [(''icon'', ''mdi:information-outline'')])]"

text \<open>The apostrophe and the double quote, for the templates below.\<close>

definition apostrophe :: string where
  "apostrophe = [CHR 0x27]"

definition quoted :: "string \<Rightarrow> string" where
  "quoted x = [CHR 0x22] @ x @ [CHR 0x22]"

definition binary_flags :: "(string \<times> string \<times> (string \<times> string) list) list" where
  "binary_flags =
     [(''BateriaEmUso'', ''Battery In Use'',
         [(''device_class'', ''running''), (''entity_category'', ''diagnostic'')]),
      (''BateriaBaixa'', ''Low Battery'',
         [(''device_class'', ''battery''), (''entity_category'', ''diagnostic'')]),
      (''ByPass'', ''Bypass'',
         [(''icon'', ''mdi:power-plug-off''), (''entity_category'', ''diagnostic'')]),
      (''Boost'', ''Boost'',
         [(''icon'', ''mdi:flash''), (''entity_category'', ''diagnostic'')]),
      (''UpsOk'', ''UPS OK'',
         [(''device_class'', ''problem''), (''entity_category'', ''diagnostic''),
          (''value_template'',
             ''{% if '' @ apostrophe @ ''UpsOk'' @ apostrophe
               @ '' in value_json.active_flags %}OFF{% else %}ON{% endif %}'')]),
      (''TesteAtivo'', ''Test Active'',
         [(''icon'', ''mdi:test-tube''), (''entity_category'', ''diagnostic'')]),
      (''ShutdownAtivo'', ''Shutdown Active'',
         [(''icon'', ''mdi:power-off''), (''entity_category'', ''diagnostic'')]),
      (''BeepLigado'', ''Beep On'',
         [(''icon'', ''mdi:volume-high''), (''entity_category'', ''diagnostic'')])]"

text \<open>The buttons: key, name, command and icon.\<close>

definition buttons_config :: "(string \<times> string \<times> string \<times> string) list" where
  "buttons_config =
     [(''battery_test'', ''Battery Test'', ''T'', ''mdi:battery-charging''),
      (''battery_discharge'', ''Battery Discharge'', ''D'', ''mdi:battery-alert''),
      (''cancel_action'', ''Cancel Action'', ''C'', ''mdi:cancel''),
      (''shutdown_restore'', ''Shutdown & Restore'', ''R'', ''mdi:power-cycle'')]"

text \<open>
  What one turn of each of the three loops publishes, and the switch between them: the
  topic, the payload handed to \<open>json.dumps\<close>, and the log record.
\<close>

definition sensor_discovery :: "string \<times> string \<times> (string \<times> string) list \<Rightarrow> string \<times> json \<times> log_msg" where
  "sensor_discovery entry =
     (case entry of (key, name, config) \<Rightarrow>
        let unique_id = MQTT_CLIENT_ID @ ''_'' @ key;
            config_topic = HA_DISCOVERY_PREFIX @ ''/sensor/'' @ unique_id @ ''/config'';
            payload =
              [(''name'', JStr (DEVICE_NAME @ '' '' @ name)),
               (''unique_id'', JStr unique_id),
               (''state_topic'', JStr (MQTT_TOPIC_BASE @ ''/status'')),
               (''value_template'', JStr (''{{ value_json.'' @ key @ '' }}'')),
               (''device'', device_info),
               (''qos'', JNum 1),
               (''force_update'', JBool True)];
            payload' = dict_update payload (map (\<lambda>(k, v). (k, JStr v)) config)
        in (config_topic, JObj payload', DiscoveryPublished name config_topic))"

definition binary_sensor_discovery :: "string \<times> string \<times> (string \<times> string) list \<Rightarrow> string \<times> json \<times> log_msg" where
  "binary_sensor_discovery entry =
     (case entry of (flag_key, name, config) \<Rightarrow>
        let unique_id = MQTT_CLIENT_ID @ ''_'' @ lower flag_key;
            config_topic = HA_DISCOVERY_PREFIX @ ''/binary_sensor/'' @ unique_id @ ''/config'';
            payload =
              [(''name'', JStr (DEVICE_NAME @ '' '' @ name)),
               (''unique_id'', JStr unique_id),
               (''state_topic'', JStr (MQTT_TOPIC_BASE @ ''/status'')),
               (''device'', device_info),
               (''qos'', JNum 1),
               (''retain'', JBool True)];
            template =
              (case map_of config ''value_template'' of
                 Some t \<Rightarrow> t
               | None \<Rightarrow> ''{% if '' @ apostrophe @ flag_key @ apostrophe
                           @ '' in value_json.active_flags %}ON{% else %}OFF{% endif %}'');
            payload' = dict_set payload ''value_template'' (JStr template);
            payload'' = dict_update payload'
              (map (\<lambda>(k, v). (k, JStr v)) (filter (\<lambda>(k, v). k \<noteq> ''value_template'') config))
        in (config_topic, JObj payload'', DiscoveryPublishedBinary name config_topic))"

definition beep_switch_discovery :: "string \<times> json \<times> log_msg" where
  "beep_switch_discovery =
     (let beep_unique_id = MQTT_CLIENT_ID @ ''_beep_control'';
          beep_config_topic = HA_DISCOVERY_PREFIX @ ''/switch/'' @ beep_unique_id @ ''/config'';
          beep_payload =
            [(''name'', JStr (DEVICE_NAME @ '' Beep Control'')),
             (''unique_id'', JStr beep_unique_id),
             (''state_topic'', JStr (MQTT_TOPIC_BASE @ ''/status'')),
             (''value_template'',
                JStr (''{% if '' @ apostrophe @ ''BeepLigado'' @ apostrophe
                      @ '' in value_json.active_flags %}ON{% else %}OFF{% endif %}'')),
             (''command_topic'', JStr (MQTT_TOPIC_BASE @ ''/command'')),
             (''payload_on'', JStr (''{'' @ quoted ''command'' @ '': '' @ quoted ''M'' @ ''}'')),
             (''payload_off'', JStr (''{'' @ quoted ''command'' @ '': '' @ quoted ''M'' @ ''}'')),
             (''device'', device_info),
             (''qos'', JNum 1),
             (''retain'', JBool True),
             (''icon'', JStr ''mdi:volume-high'')]
      in (beep_config_topic, JObj beep_payload, DiscoveryPublished ''Beep Control'' beep_config_topic))"

definition button_discovery :: "string \<times> string \<times> string \<times> string \<Rightarrow> string \<times> json \<times> log_msg" where
  "button_discovery entry =
     (case entry of (button_key, name, command, icon) \<Rightarrow>
        let unique_id = MQTT_CLIENT_ID @ ''_'' @ button_key;
            config_topic = HA_DISCOVERY_PREFIX @ ''/button/'' @ unique_id @ ''/config'';
            payload =
              [(''name'', JStr (DEVICE_NAME @ '' '' @ name)),
               (''unique_id'', JStr unique_id),
               (''command_topic'', JStr (MQTT_TOPIC_BASE @ ''/command'')),
               (''payload_press'', JStr (''{'' @ quoted ''command'' @ '': '' @ quoted command @ ''}'')),
               (''device'', device_info),
               (''qos'', JNum 1),
               (''retain'', JBool True),
               (''icon'', JStr icon)]
        in (config_topic, JObj payload, DiscoveryPublished name config_topic))"

text \<open>
  \<open>self.mqtt_client.publish(config_topic, json.dumps(payload), qos=1, retain=True)\<close>
  followed by \<open>logger.info(...)\<close>, as each turn ends.
\<close>

definition publish_config :: "session \<Rightarrow> string \<times> json \<times> log_msg \<Rightarrow> session" where
  "publish_config s d =
     (case d of (config_topic, payload, msg) \<Rightarrow>
        emit INFO msg (perform (Publish config_topic (JsonDumps payload) 1 True) s))"


text \<open>
  \<^verbatim>\<open>if not self.mqtt_client:
    logger.error(...)
    return
for key, config in sensors_to_discover.items(): ...
for flag_key, config in binary_flags.items(): ...
self.mqtt_client.publish(beep_config_topic, ...)
for button_key, config in buttons_config.items(): ...\<close>
\<close>

definition publish_discovery_messages :: "session \<Rightarrow> session" where
  "publish_discovery_messages s =
     (if mqtt_client s = None then emit ERROR MqttClientMissing s
      else
        let s1 = foldl (\<lambda>s entry. publish_config s (sensor_discovery entry)) s sensors_to_discover;
            s2 = foldl (\<lambda>s entry. publish_config s (binary_sensor_discovery entry)) s1 binary_flags;
            s3 = publish_config s2 beep_switch_discovery
        in foldl (\<lambda>s entry. publish_config s (button_discovery entry)) s3 buttons_config)"

text \<open>
  The connect callback. \<open>client\<close> is the client the callback is registered on, which is
  \<open>self.mqtt_client\<close>; \<open>rc\<close> is the result code of the connection, \<open>0\<close> for success.

  \<^verbatim>\<open>if rc == 0:
    logger.info(...)
    client.subscribe(f"{self.MQTT_TOPIC_BASE}/command")
    logger.info(...)
    command_topic = f"{self.MQTT_TOPIC_BASE}/command"
    client.publish(command_topic, payload=None, qos=1, retain=True)
    logger.info(...)
    self.publish_discovery_messages()
else:
    logger.error(...)\<close>
\<close>

definition on_mqtt_connect :: "session \<Rightarrow> int \<Rightarrow> session" where
  "on_mqtt_connect s rc =
     (if rc = 0 then
        let s1 = emit INFO MqttConnected s;
            s2 = perform (Subscribe (MQTT_TOPIC_BASE @ ''/command'')) s1;
            s3 = emit INFO (SubscribedTo (MQTT_TOPIC_BASE @ ''/command'')) s2;
            command_topic = MQTT_TOPIC_BASE @ ''/command'';
            s4 = perform (Publish command_topic NoPayload 1 True) s3;
            s5 = emit INFO (ClearedRetained command_topic) s4
        in publish_discovery_messages s5
      else emit ERROR (MqttConnectFailed rc) s)"

section \<open>The bridge: inbound commands\<close>

text \<open>
  The handler uses the payload of a message only through \<open>msg.payload.decode()\<close> and
  \<open>json.loads\<close> of the decoded text, two library calls. A payload is given here by what
  they do on it: \<open>NotUtf8\<close> when \<open>decode\<close> raises \<open>UnicodeDecodeError\<close> (the bytes
  \<open>FF\<close>, say), otherwise \<open>Decoded r\<close> with \<open>r\<close> the exception \<open>json.loads\<close> raises or
  the value it returns.
\<close>

datatype payload_reading = NotUtf8 | Decoded "py_exception + json"

record mqtt_message =
  topic :: string
  payload :: payload_reading

text \<open>\<open>payload.get("command")\<close>: only a dictionary has \<open>get\<close>.\<close>

definition get_command :: "json \<Rightarrow> py_exception + json" where
  "get_command v =
     (case v of
        JObj items \<Rightarrow> Inr (case map_of items ''command'' of None \<Rightarrow> JNull | Some c \<Rightarrow> c)
      | _ \<Rightarrow> Inl AttributeError)"

text \<open>Truth of a value in \<open>if command_key:\<close>.\<close>

definition truthy :: "json \<Rightarrow> bool" where
  "truthy v =
     (case v of
        JNull \<Rightarrow> False
      | JBool b \<Rightarrow> b
      | JNum n \<Rightarrow> n \<noteq> 0
      | JStr x \<Rightarrow> x \<noteq> []
      | JArr xs \<Rightarrow> xs \<noteq> []
      | JObj items \<Rightarrow> items \<noteq> [])"

text \<open>
  \<open>command_key in SMS_GAMER_COMMANDS_PARAMS\<close>: a list or a dictionary cannot be hashed
  (\<open>TypeError\<close>); the keys of the registry are strings, so only a string can be among
  them. The result is the registered key, if there is one.
\<close>

definition registered_key :: "json \<Rightarrow> py_exception + string option" where
  "registered_key v =
     (case v of
        JStr k \<Rightarrow> Inr (if map_of SMS_GAMER_COMMANDS_PARAMS k \<noteq> None then Some k else None)
      | JArr xs \<Rightarrow> Inl TypeError
      | JObj items \<Rightarrow> Inl TypeError
      | _ \<Rightarrow> Inr None)"

text \<open>
  The body of the \<open>try\<close> of \<open>_on_mqtt_message\<close>. Whatever it raises, it raises before it
  has called or logged anything.

  \<^verbatim>\<open>payload = json.loads(msg.payload.decode())
command_key = payload.get("command")
if command_key:
    if command_key in SMS_GAMER_COMMANDS_PARAMS:
        self.send_predefined_command(command_key)
        logger.info(...)
    else:
        logger.warning(...)
else:
    logger.warning(...)\<close>
\<close>

definition dispatch_command ::
  "session \<Rightarrow> py_exception + json \<Rightarrow> py_exception option \<Rightarrow> py_exception + bytes
     \<Rightarrow> py_exception + session" where
  "dispatch_command s loaded wr rd =
     and_then loaded (\<lambda>payload.
     and_then (get_command payload) (\<lambda>command_key.
       if truthy command_key then
         and_then (registered_key command_key) (\<lambda>registered.
           case registered of
             Some k \<Rightarrow>
               and_then (send_predefined_command s k wr rd) (\<lambda>(response, s').
                 Inr (emit INFO (CommandSent k) s'))
           | None \<Rightarrow> Inr (emit WARNING (CommandNotRecognized command_key) s))
       else Inr (emit WARNING NoCommandKey s)))"

text \<open>
  \<^verbatim>\<open>logger.info(f"... '{msg.topic}': {msg.payload.decode()}")
try:
    ...
except json.JSONDecodeError:
    logger.error(...)
except Exception as e:
    logger.error(...)\<close>

  The first line decodes the payload outside the \<open>try\<close>: what it raises leaves the
  handler.
\<close>

definition on_mqtt_message ::
  "session \<Rightarrow> mqtt_message \<Rightarrow> py_exception option \<Rightarrow> py_exception + bytes
     \<Rightarrow> py_exception + session" where
  "on_mqtt_message s msg wr rd =
     (case payload msg of
        NotUtf8 \<Rightarrow> Inl UnicodeDecodeError
      | Decoded loaded \<Rightarrow>
          let s1 = emit INFO (MessageReceived (topic msg)) s
          in case dispatch_command s1 loaded wr rd of
               Inr s' \<Rightarrow> Inr s'
             | Inl JSONDecodeError \<Rightarrow> Inr (emit ERROR JsonDecodeFailed s1)
             | Inl e \<Rightarrow> Inr (emit ERROR (CommandProcessingError e) s1))"

section \<open>Properties of the codec\<close>

lemma and_255_eq_mod: "(x::int) AND 255 = x mod 256"
proof -
  have "x AND mask 8 = take_bit 8 x"
    by (simp only: take_bit_eq_mask)
  then show ?thesis
    by (simp add: take_bit_eq_mod mask_eq_exp_minus_1)
qed

lemma uint_minus_byte: "uint (- (word_of_int s :: byte)) = (- s) mod 256"
proof -
  have "- (word_of_int s :: byte) = word_of_int (- s)"
    by simp
  then have "uint (- (word_of_int s :: byte)) = take_bit 8 (- s)"
    by (simp only: uint_word_of_int_eq) simp
  then show ?thesis
    by (simp add: take_bit_eq_mod)
qed

lemma calculate_checksum_mod:
  "calculate_checksum c p1 p2 p3 p4 = (- (c + p1 + p2 + p3 + p4)) mod 256"
  by (simp add: calculate_checksum_def and_255_eq_mod)

text \<open>
  C1. For every five integers, so for every five byte values, \<open>calculate_checksum\<close>
  returns a value in \<open>0..255\<close>; it is the negated sum masked to 8 bits, which is the
  two's-complement negation of the sum as an 8-bit word; and the sum of the five bytes
  and the checksum, masked to 8 bits, is \<open>0\<close>.
\<close>

theorem calculate_checksum_correct:
  "0 \<le> calculate_checksum c p1 p2 p3 p4
   \<and> calculate_checksum c p1 p2 p3 p4 \<le> 255
   \<and> calculate_checksum c p1 p2 p3 p4 = (- (c + p1 + p2 + p3 + p4)) AND 255
   \<and> calculate_checksum c p1 p2 p3 p4 = uint (- (word_of_int (c + p1 + p2 + p3 + p4) :: byte))
   \<and> (c + p1 + p2 + p3 + p4 + calculate_checksum c p1 p2 p3 p4) AND 255 = 0"
proof -
  let ?s = "c + p1 + p2 + p3 + p4"
  have m: "calculate_checksum c p1 p2 p3 p4 = (- ?s) mod 256"
    by (rule calculate_checksum_mod)
  have lo: "0 \<le> calculate_checksum c p1 p2 p3 p4" and hi: "calculate_checksum c p1 p2 p3 p4 \<le> 255"
    unfolding m by simp_all
  have a: "calculate_checksum c p1 p2 p3 p4 = (- ?s) AND 255"
    by (simp add: calculate_checksum_def)
  have w: "calculate_checksum c p1 p2 p3 p4 = uint (- (word_of_int ?s :: byte))"
    unfolding m by (simp only: uint_minus_byte)
  have "(?s + (- ?s) mod 256) mod 256 = 0"
    by (simp add: mod_add_right_eq)
  then have z: "(?s + calculate_checksum c p1 p2 p3 p4) AND 255 = 0"
    unfolding m and_255_eq_mod .
  from lo hi a w z show ?thesis by blast
qed

lemma and_then_Inr: "and_then (Inr v) f = f v"
  by (simp add: and_then_def)

lemma and_then_Inl: "and_then (Inl e) f = Inl e"
  by (simp add: and_then_def)

lemma pack_B_byte: "0 \<le> x \<and> x \<le> 255 \<Longrightarrow> pack_B x = Inr (word_of_int x)"
  by (simp add: pack_B_def)

lemma uint_byte: "0 \<le> x \<and> x \<le> 255 \<Longrightarrow> uint (word_of_int x :: byte) = x"
  by (simp add: uint_word_of_int_eq take_bit_eq_mod)

lemma calculate_checksum_byte:
  "0 \<le> calculate_checksum c p1 p2 p3 p4 \<and> calculate_checksum c p1 p2 p3 p4 \<le> 255"
  unfolding calculate_checksum_mod by simp

lemma struct_pack_B_bytes:
  "\<forall>x \<in> set xs. 0 \<le> x \<and> x \<le> 255 \<Longrightarrow> struct_pack_B xs = Inr (map word_of_int xs)"
  by (induction xs) (simp_all add: pack_B_byte and_then_Inr)

lemma build_full_command_Inr:
  assumes "\<forall>x \<in> set [c, p1, p2, p3, p4]. 0 \<le> x \<and> x \<le> 255"
  shows "build_full_command c p1 p2 p3 p4 =
           Inr (map word_of_int [c, p1, p2, p3, p4, calculate_checksum c p1 p2 p3 p4] @ [0x0D])"
proof -
  have "\<forall>x \<in> set [c, p1, p2, p3, p4, calculate_checksum c p1 p2 p3 p4]. 0 \<le> x \<and> x \<le> 255"
    using assms calculate_checksum_byte [of c p1 p2 p3 p4] by simp
  then show ?thesis
    unfolding build_full_command_def Let_def by (simp only: struct_pack_B_bytes and_then_Inr)
qed

text \<open>
  C2. For every five byte values, \<open>build_full_command\<close> does not raise and returns
  exactly 7 bytes: the five protocol bytes in order, the checksum byte, and the terminator
  \<open>0x0D\<close>.
\<close>

theorem build_full_command_frame:
  assumes c: "0 \<le> c \<and> c \<le> 255"
    and p1: "0 \<le> p1 \<and> p1 \<le> 255"
    and p2: "0 \<le> p2 \<and> p2 \<le> 255"
    and p3: "0 \<le> p3 \<and> p3 \<le> 255"
    and p4: "0 \<le> p4 \<and> p4 \<le> 255"
  shows "\<exists>frame. build_full_command c p1 p2 p3 p4 = Inr frame
           \<and> length frame = 7
           \<and> map uint frame = [c, p1, p2, p3, p4, calculate_checksum c p1 p2 p3 p4, 0x0D]"
proof -
  let ?cs = "calculate_checksum c p1 p2 p3 p4"
  let ?frame = "map word_of_int [c, p1, p2, p3, p4, ?cs] @ [0x0D] :: bytes"
  have cs: "0 \<le> ?cs \<and> ?cs \<le> 255"
    by (rule calculate_checksum_byte)
  have "\<forall>x \<in> set [c, p1, p2, p3, p4]. 0 \<le> x \<and> x \<le> 255"
    using c p1 p2 p3 p4 by simp
  then have b: "build_full_command c p1 p2 p3 p4 = Inr ?frame"
    by (rule build_full_command_Inr)
  have u: "map uint ?frame = [c, p1, p2, p3, p4, ?cs, 0x0D]"
    by (simp add: uint_byte [OF c] uint_byte [OF p1] uint_byte [OF p2] uint_byte [OF p3]
        uint_byte [OF p4] uint_byte [OF cs])
  show ?thesis
  proof (intro exI conjI)
    show "build_full_command c p1 p2 p3 p4 = Inr ?frame"
      by (rule b)
    show "length ?frame = 7"
      by simp
    show "map uint ?frame = [c, p1, p2, p3, p4, ?cs, 0x0D]"
      by (rule u)
  qed
qed

text \<open>The frame of the \<open>Q\<close> command, \<open>51 FF FF FF FF B3 0D\<close>.\<close>

theorem build_full_command_frame_witness:
  "(0 \<le> (0x51::int) \<and> (0x51::int) \<le> 255) \<and> (0 \<le> (0xFF::int) \<and> (0xFF::int) \<le> 255)
   \<and> (\<exists>frame. build_full_command 0x51 0xFF 0xFF 0xFF 0xFF = Inr frame
           \<and> length frame = 7
           \<and> map uint frame = [0x51, 0xFF, 0xFF, 0xFF, 0xFF, 0xB3, 0x0D])"
proof -
  have a: "0 \<le> (0x51::int) \<and> (0x51::int) \<le> 255" and b: "0 \<le> (0xFF::int) \<and> (0xFF::int) \<le> 255"
    by simp_all
  have cs: "calculate_checksum 0x51 0xFF 0xFF 0xFF 0xFF = 0xB3"
    by (simp add: calculate_checksum_mod)
  have "\<exists>frame. build_full_command 0x51 0xFF 0xFF 0xFF 0xFF = Inr frame
           \<and> length frame = 7
           \<and> map uint frame = [0x51, 0xFF, 0xFF, 0xFF, 0xFF, 0xB3, 0x0D]"
    using build_full_command_frame [OF a b b b b] by (simp only: cs)
  then show ?thesis
    by (rule conjI [OF a conjI [OF b]])
qed

lemma struct_unpack_slice_of:
  "j \<le> length r \<Longrightarrow> i \<le> j \<Longrightarrow> n = j - i \<Longrightarrow>
   struct_unpack n (slice_of r i j) = Inr (big_endian (slice_of r i j))"
  by (simp add: struct_unpack_def slice_of_def)

lemma interpret_body_decodes:
  assumes len: "17 \<le> length response"
  defines "r \<equiv> if last response = 0x0D then butlast response else response"
  shows "interpret_body now response =
     Inr \<lparr>vin = round1 (of_nat (big_endian (slice_of r 1 5)) / 10),
          vout = round1 (of_nat (big_endian (slice_of r 5 7)) / 10),
          load_percent = round1 (of_nat (big_endian (slice_of r 7 9)) / 10),
          frequency = round1 (of_nat (big_endian (slice_of r 9 11)) / 10),
          battery_percent = round1 (of_nat (big_endian (slice_of r 11 13)) / 10),
          temperature = round1 (of_nat (big_endian (slice_of r 13 15)) / 10),
          extra_flags_raw = r ! 15,
          extra_flags_binary = format_08b (r ! 15),
          active_flags = flags_on (r ! 15),
          active_flags_str = flags_str (r ! 15),
          raw_response_hex = hex r,
          timestamp = now\<rparr>"
proof -
  have l: "16 \<le> length r"
  proof (cases "last response = 0x0D")
    case True
    then have "length r = length response - 1"
      by (simp add: r_def)
    with len show ?thesis
      by arith
  next
    case False
    then have "r = response"
      by (simp add: r_def)
    with len show ?thesis
      by simp
  qed
  have u: "struct_unpack 4 (slice_of r 1 5) = Inr (big_endian (slice_of r 1 5))"
    "struct_unpack 2 (slice_of r 5 7) = Inr (big_endian (slice_of r 5 7))"
    "struct_unpack 2 (slice_of r 7 9) = Inr (big_endian (slice_of r 7 9))"
    "struct_unpack 2 (slice_of r 9 11) = Inr (big_endian (slice_of r 9 11))"
    "struct_unpack 2 (slice_of r 11 13) = Inr (big_endian (slice_of r 11 13))"
    "struct_unpack 2 (slice_of r 13 15) = Inr (big_endian (slice_of r 13 15))"
    using l by (simp_all add: struct_unpack_slice_of)
  have i: "index r 15 = Inr (r ! 15)"
    using l by (simp add: index_def)
  show ?thesis
    unfolding interpret_body_def Let_def r_def [symmetric]
    by (simp only: u i and_then_Inr)
qed

lemma interpret_q_response_long:
  assumes len: "17 \<le> length response"
  shows "interpret_q_response now response =
     (case interpret_body now response of Inl e \<Rightarrow> Inl (MalformedResponse e) | Inr d \<Rightarrow> Inr d)"
proof -
  from len have "\<not> (response = [] \<or> length response < 17)"
    by auto
  then show ?thesis
    by (simp only: interpret_q_response_def if_False)
qed

lemma round1_tenths: "round1 (of_nat n / 10) = of_nat n / 10"
  by (simp add: round1_def Let_def)


lemma interpret_q_response_Inr:
  assumes len: "17 \<le> length response"
  defines "r \<equiv> if last response = 0x0D then butlast response else response"
  shows "interpret_q_response now response =
     Inr \<lparr>vin = round1 (of_nat (big_endian (slice_of r 1 5)) / 10),
          vout = round1 (of_nat (big_endian (slice_of r 5 7)) / 10),
          load_percent = round1 (of_nat (big_endian (slice_of r 7 9)) / 10),
          frequency = round1 (of_nat (big_endian (slice_of r 9 11)) / 10),
          battery_percent = round1 (of_nat (big_endian (slice_of r 11 13)) / 10),
          temperature = round1 (of_nat (big_endian (slice_of r 13 15)) / 10),
          extra_flags_raw = r ! 15,
          extra_flags_binary = format_08b (r ! 15),
          active_flags = flags_on (r ! 15),
          active_flags_str = flags_str (r ! 15),
          raw_response_hex = hex r,
          timestamp = now\<rparr>"
  unfolding interpret_q_response_long [OF len] r_def interpret_body_decodes [OF len]
  by (simp only: sum.case)

lemma example_response_stripped:
  "(if last example_response = 0x0D then butlast example_response else example_response) =
     [0x00, 0x00, 0x00, 0x09, 0x60, 0x00, 0xE6, 0x00, 0x00, 0x02, 0x58, 0x03, 0x84, 0x01, 0xF4, 0x81]"
  by (simp add: example_response_def)

lemma flags_on_0x81: "flags_on 0x81 = [''BateriaEmUso'', ''BeepLigado'']"
  by (simp add: flags_on_def flags_bits_def)

lemma example_response_decoded:
  "length example_response = 17
   \<and> interpret_q_response now example_response =
       Inr \<lparr>vin = 240, vout = 23, load_percent = 0, frequency = 60, battery_percent = 90,
            temperature = 50, extra_flags_raw = 0x81, extra_flags_binary = ''10000001'',
            active_flags = [''BateriaEmUso'', ''BeepLigado''],
            active_flags_str = ''BateriaEmUso, BeepLigado'',
            raw_response_hex = ''000000096000e600000258038401f481'',
            timestamp = now\<rparr>"
proof -
  let ?r = "[0x00, 0x00, 0x00, 0x09, 0x60, 0x00, 0xE6, 0x00, 0x00, 0x02, 0x58, 0x03, 0x84, 0x01, 0xF4, 0x81] :: bytes"
  have len: "length example_response = 17"
    by (simp add: example_response_def)
  then have len': "17 \<le> length example_response"
    by simp
  have vin: "round1 (of_nat (big_endian (slice_of ?r 1 5)) / 10) = 240"
    by (simp add: slice_of_def big_endian_def round1_def)
  have vout: "round1 (of_nat (big_endian (slice_of ?r 5 7)) / 10) = 23"
    by (simp add: slice_of_def big_endian_def round1_def)
  have load: "round1 (of_nat (big_endian (slice_of ?r 7 9)) / 10) = 0"
    by (simp add: slice_of_def big_endian_def round1_def)
  have freq: "round1 (of_nat (big_endian (slice_of ?r 9 11)) / 10) = 60"
    by (simp add: slice_of_def big_endian_def round1_def)
  have batt: "round1 (of_nat (big_endian (slice_of ?r 11 13)) / 10) = 90"
    by (simp add: slice_of_def big_endian_def round1_def)
  have temp: "round1 (of_nat (big_endian (slice_of ?r 13 15)) / 10) = 50"
    by (simp add: slice_of_def big_endian_def round1_def)
  have extra: "?r ! 15 = 0x81"
    by simp
  have bin: "format_08b 0x81 = ''10000001''"
    by (simp add: format_08b_def)
  have str: "flags_str 0x81 = ''BateriaEmUso, BeepLigado''"
    by (simp add: flags_str_def flags_on_0x81)
  have hx: "hex ?r = ''000000096000e600000258038401f481''"
    by (simp add: hex_def hex_digit_def)
  have "interpret_q_response now example_response =
       Inr \<lparr>vin = 240, vout = 23, load_percent = 0, frequency = 60, battery_percent = 90,
            temperature = 50, extra_flags_raw = 0x81, extra_flags_binary = ''10000001'',
            active_flags = [''BateriaEmUso'', ''BeepLigado''],
            active_flags_str = ''BateriaEmUso, BeepLigado'',
            raw_response_hex = ''000000096000e600000258038401f481'',
            timestamp = now\<rparr>"
    unfolding interpret_q_response_Inr [OF len'] example_response_stripped
    by (simp only: vin vout load freq batt temp extra bin str hx flags_on_0x81)
  with len show ?thesis
    by (rule conjI)
qed


lemma flags_on_bit: "flags_on extra = map snd (filter (\<lambda>(b, name). bit extra b) flags_bits)"
  unfolding flags_on_def by (simp only: bit_iff_and_push_bit_not_eq_0)

lemma flags_on_explicit:
  "flags_on extra =
     (if bit extra 7 then [''BateriaEmUso''] else []) @
     (if bit extra 6 then [''BateriaBaixa''] else []) @
     (if bit extra 5 then [''ByPass''] else []) @
     (if bit extra 4 then [''Boost''] else []) @
     (if bit extra 3 then [''UpsOk''] else []) @
     (if bit extra 2 then [''TesteAtivo''] else []) @
     (if bit extra 1 then [''ShutdownAtivo''] else []) @
     (if bit extra 0 then [''BeepLigado''] else [])"
  unfolding flags_on_bit flags_bits_def by simp

lemma byte_zero_iff:
  "(extra :: byte) = 0 \<longleftrightarrow>
     \<not> (bit extra 7 \<or> bit extra 6 \<or> bit extra 5 \<or> bit extra 4 \<or> bit extra 3 \<or> bit extra 2
        \<or> bit extra 1 \<or> bit extra 0)"
proof
  assume "extra = 0"
  then show "\<not> (bit extra 7 \<or> bit extra 6 \<or> bit extra 5 \<or> bit extra 4 \<or> bit extra 3 \<or> bit extra 2
        \<or> bit extra 1 \<or> bit extra 0)"
    by simp
next
  assume a: "\<not> (bit extra 7 \<or> bit extra 6 \<or> bit extra 5 \<or> bit extra 4 \<or> bit extra 3 \<or> bit extra 2
        \<or> bit extra 1 \<or> bit extra 0)"
  show "extra = 0"
  proof (rule bit_word_eqI)
    fix n assume "n < LENGTH(8)"
    then consider "n = 0" | "n = 1" | "n = 2" | "n = 3" | "n = 4" | "n = 5" | "n = 6" | "n = 7"
      by fastforce
    then show "bit extra n = bit (0::byte) n"
      using a by cases simp_all
  qed
qed

lemma flags_on_empty_iff: "flags_on extra = [] \<longleftrightarrow> extra = 0"
  unfolding flags_on_explicit byte_zero_iff by simp

lemma flags_str_0: "flags_str 0 = ''nenhuma flag ativa''"
  by (simp add: flags_str_def flags_on_empty_iff)

lemma zeros_decoded:
  "interpret_q_response now (replicate 16 0 @ [0x0D]) =
     Inr \<lparr>vin = 0, vout = 0, load_percent = 0, frequency = 0, battery_percent = 0,
          temperature = 0, extra_flags_raw = 0, extra_flags_binary = ''00000000'',
          active_flags = [], active_flags_str = ''nenhuma flag ativa'',
          raw_response_hex = ''00000000000000000000000000000000'',
          timestamp = now\<rparr>"
proof -
  let ?z = "replicate 16 0 @ [0x0D] :: bytes"
  let ?r = "[0, 0, 0, 0, 0, 0, 0, 0, 0, 0, 0, 0, 0, 0, 0, 0] :: bytes"
  have rep: "replicate 16 (0::byte) = ?r"
    by (simp add: numeral_eq_Suc)
  have len: "17 \<le> length ?z"
    by simp
  have r: "(if last ?z = 0x0D then butlast ?z else ?z) = ?r"
    by (simp add: rep)
  have f: "round1 (of_nat (big_endian (slice_of ?r 1 5)) / 10) = 0"
    "round1 (of_nat (big_endian (slice_of ?r 5 7)) / 10) = 0"
    "round1 (of_nat (big_endian (slice_of ?r 7 9)) / 10) = 0"
    "round1 (of_nat (big_endian (slice_of ?r 9 11)) / 10) = 0"
    "round1 (of_nat (big_endian (slice_of ?r 11 13)) / 10) = 0"
    "round1 (of_nat (big_endian (slice_of ?r 13 15)) / 10) = 0"
    by (simp_all add: slice_of_def big_endian_def round1_def)
  have extra: "?r ! 15 = 0"
    by simp
  have bin: "format_08b 0 = ''00000000''"
    by (simp add: format_08b_def)
  have on: "flags_on 0 = []"
    by (simp add: flags_on_empty_iff)
  have hx: "hex ?r = ''00000000000000000000000000000000''"
    by (simp add: hex_def hex_digit_def)
  show ?thesis
    unfolding interpret_q_response_Inr [OF len] r
    by (simp only: f extra bin on hx flags_str_0)
qed

text \<open>
  C3, as the code has it. The example reply is 17 bytes long, not 18, and
  \<open>_interpret_q_response\<close> decodes it to \<open>vin = 240.0\<close>, \<open>vout = 23.0\<close>,
  \<open>load_percent = 0.0\<close>, \<open>frequency = 60.0\<close>, \<open>battery_percent = 90.0\<close>,
  \<open>temperature = 50.0\<close> and the active flags \<open>BateriaEmUso\<close>, \<open>BeepLigado\<close>
  (bits 7 and 0): bytes \<open>00 00 09 60\<close> are 2400 tenths and bytes \<open>03 84\<close> are 900
  tenths.
\<close>

theorem interpret_q_response_example:
  "length example_response = 17
   \<and> interpret_q_response now example_response =
       Inr \<lparr>vin = 240, vout = 23, load_percent = 0, frequency = 60, battery_percent = 90,
            temperature = 50, extra_flags_raw = 0x81, extra_flags_binary = ''10000001'',
            active_flags = [''BateriaEmUso'', ''BeepLigado''],
            active_flags_str = ''BateriaEmUso, BeepLigado'',
            raw_response_hex = ''000000096000e600000258038401f481'',
            timestamp = now\<rparr>"
  by (rule example_response_decoded)

text \<open>
  C3 as stated fails: on the example reply the decoder does not yield \<open>vin = 24.0\<close>, nor
  \<open>battery_percent = 100.0\<close>, and the reply is not 18 bytes long.
\<close>

theorem interpret_q_response_example_counterexample:
  "map_sum id vin (interpret_q_response ''2024-01-01 00:00:00'' example_response) \<noteq> Inr 24
   \<and> map_sum id battery_percent (interpret_q_response ''2024-01-01 00:00:00'' example_response)
       \<noteq> Inr 100
   \<and> length example_response \<noteq> 18"
  by (simp add: example_response_decoded)

text \<open>
  C4. \<open>_interpret_q_response\<close> fails with \<open>ShortResponse\<close> on every input that is
  empty or shorter than 17 bytes, whatever its last byte is; and it fails with
  \<open>ShortResponse\<close> on no other input, so the guard looks at the length of the reply as
  received, before a terminator is stripped.
\<close>

theorem interpret_q_response_short:
  "interpret_q_response now response = Inl ShortResponse \<longleftrightarrow> length response < 17"
proof (cases "length response < 17")
  case True
  then show ?thesis
    by (simp add: interpret_q_response_def)
next
  case False
  then have "17 \<le> length response"
    by simp
  from interpret_q_response_Inr [OF this] False show ?thesis
    by simp
qed

text \<open>
  A reply of 16 bytes that ends in the terminator.
\<close>

theorem interpret_q_response_short_witness:
  "length [0, 1, 2, 3, 4, 5, 6, 7, 8, 9, 10, 11, 12, 13, 14, 0x0D :: byte] < 17
   \<and> interpret_q_response ''2024-01-01 00:00:00''
        [0, 1, 2, 3, 4, 5, 6, 7, 8, 9, 10, 11, 12, 13, 14, 0x0D] = Inl ShortResponse"
  using interpret_q_response_short
    [of "''2024-01-01 00:00:00''" "[0, 1, 2, 3, 4, 5, 6, 7, 8, 9, 10, 11, 12, 13, 14, 0x0D]"]
  by simp

lemma interpret_q_response_isl: "isl (interpret_q_response now response) \<longleftrightarrow> length response < 17"
proof (cases "length response < 17")
  case True
  then show ?thesis
    by (simp add: interpret_q_response_def)
next
  case False
  then have "17 \<le> length response"
    by simp
  from interpret_q_response_Inr [OF this] False show ?thesis
    by simp
qed

text \<open>
  C5 as stated fails: 16 payload bytes followed by the terminator \<open>0x0D\<close> are 17 bytes;
  once the terminator is stripped fewer than 17 bytes remain, and yet the reply is decoded.
\<close>

theorem interpret_q_response_terminated_counterexample:
  "length (butlast (replicate 16 0 @ [0x0D :: byte])) < 17
   \<and> \<not> isl (interpret_q_response ''2024-01-01 00:00:00'' (replicate 16 0 @ [0x0D]))"
  by (simp add: zeros_decoded)

text \<open>
  C5, as the code has it. Decoding fails exactly when the reply as received, before the
  terminator is stripped, has fewer than 17 bytes; in particular a reply of exactly 16
  payload bytes followed by the terminator \<open>0x0D\<close> (17 bytes in all) is accepted.
\<close>

theorem interpret_q_response_fails_iff:
  "(isl (interpret_q_response now response) \<longleftrightarrow> length response < 17)
   \<and> (length body = 16 \<longrightarrow> \<not> isl (interpret_q_response now (body @ [0x0D])))"
  by (simp add: interpret_q_response_isl)

text \<open>
  Sixteen payload bytes: decoded with the terminator appended, rejected without it.
\<close>

theorem interpret_q_response_fails_iff_witness:
  "length [0, 1, 2, 3, 4, 5, 6, 7, 8, 9, 10, 11, 12, 13, 14, 15 :: byte] = 16
   \<and> \<not> isl (interpret_q_response ''2024-01-01 00:00:00''
          ([0, 1, 2, 3, 4, 5, 6, 7, 8, 9, 10, 11, 12, 13, 14, 15] @ [0x0D]))
   \<and> length [0, 1, 2, 3, 4, 5, 6, 7, 8, 9, 10, 11, 12, 13, 14, 15 :: byte] < 17
   \<and> isl (interpret_q_response ''2024-01-01 00:00:00''
          [0, 1, 2, 3, 4, 5, 6, 7, 8, 9, 10, 11, 12, 13, 14, 15])"
  using interpret_q_response_fails_iff
    [of "''2024-01-01 00:00:00''" "[0, 1, 2, 3, 4, 5, 6, 7, 8, 9, 10, 11, 12, 13, 14, 15]"
      "[0, 1, 2, 3, 4, 5, 6, 7, 8, 9, 10, 11, 12, 13, 14, 15]"]
  by simp




section \<open>Properties of the bridge\<close>

lemma emit_fields [simp]:
  "calls (emit lvl msg s) = calls s"
  "connected (emit lvl msg s) = connected s"
  "serial (emit lvl msg s) = serial s"
  "mqtt_client (emit lvl msg s) = mqtt_client s"
  "logged (emit lvl msg s) = logged s @ [(lvl, msg)]"
  by (simp_all add: emit_def)

lemma perform_fields [simp]:
  "calls (perform c s) = calls s @ [c]"
  "connected (perform c s) = connected s"
  "serial (perform c s) = serial s"
  "mqtt_client (perform c s) = mqtt_client s"
  "logged (perform c s) = logged s"
  by (simp_all add: perform_def)








lemma on_mqtt_connect_failed: "rc \<noteq> 0 \<Longrightarrow> calls (on_mqtt_connect s rc) = calls s"
  by (simp add: on_mqtt_connect_def)

lemma command_topic: "MQTT_TOPIC_BASE @ ''/command'' = ''sms_gamer/ups/command''"
  by (simp add: MQTT_TOPIC_BASE_def)




lemma registry_bytes:
  assumes "map_of SMS_GAMER_COMMANDS_PARAMS k = Some (c, p1, p2, p3, p4)"
  shows "\<forall>x \<in> set [c, p1, p2, p3, p4]. 0 \<le> x \<and> x \<le> 255"
proof -
  from assms have "(k, c, p1, p2, p3, p4) \<in> set SMS_GAMER_COMMANDS_PARAMS"
    by (rule map_of_SomeD)
  then show ?thesis
    unfolding SMS_GAMER_COMMANDS_PARAMS_def by auto
qed

lemma simple_commands_bytes:
  assumes "map_of simple_commands_map k = Some c"
  shows "\<forall>x \<in> set [c, 0xFF, 0xFF, 0xFF, 0xFF]. 0 \<le> x \<and> x \<le> 255"
proof -
  from assms have "(k, c) \<in> set simple_commands_map"
    by (rule map_of_SomeD)
  then show ?thesis
    unfolding simple_commands_map_def by auto
qed

lemma simple_commands_keys: "map_of simple_commands_map k = None \<longleftrightarrow> k \<notin> {''Q'', ''I'', ''F''}"
  by (simp add: simple_commands_map_def)

lemma registry_keys:
  "map_of SMS_GAMER_COMMANDS_PARAMS k = None \<longleftrightarrow> k \<notin> fst ` set SMS_GAMER_COMMANDS_PARAMS"
  by (simp add: map_of_eq_None_iff)

lemma send_simple_command_unknown:
  "map_of simple_commands_map k = None \<Longrightarrow> send_simple_command s k wr rd = Inl ValueError"
  by (simp add: send_simple_command_def)

lemma send_simple_command_known:
  assumes "map_of simple_commands_map k = Some c"
  shows "\<exists>r. send_simple_command s k wr rd = Inr r"
  unfolding send_simple_command_def
  by (simp add: assms build_full_command_Inr [OF simple_commands_bytes [OF assms]] and_then_Inr
      Let_def split: option.split sum.split)

lemma send_predefined_command_unknown:
  "map_of SMS_GAMER_COMMANDS_PARAMS k = None \<Longrightarrow>
   send_predefined_command s k wr rd = Inr (None, emit ERROR (CommandNotFound k) s)"
  by (simp add: send_predefined_command_def)

lemma send_simple_command_disconnected:
  assumes "map_of simple_commands_map k = Some c" and "\<not> connected s \<or> serial s = None"
  shows "send_simple_command s k wr rd = Inr (None, s)"
  unfolding send_simple_command_def
  using assms(2)
  by (simp add: assms(1) build_full_command_Inr [OF simple_commands_bytes [OF assms(1)]] and_then_Inr)

lemma send_predefined_command_disconnected:
  assumes "map_of SMS_GAMER_COMMANDS_PARAMS k = Some (c, p1, p2, p3, p4)"
    and "\<not> connected s \<or> serial s = None"
  shows "send_predefined_command s k wr rd = Inr (None, emit ERROR SerialNotConnected s)"
  unfolding send_predefined_command_def
  using assms(2)
  by (simp add: assms(1) build_full_command_Inr [OF registry_bytes [OF assms(1)]] and_then_Inr)


text \<open>
  C9. \<open>send_simple_command\<close> raises \<open>ValueError\<close> exactly for the command
  characters outside \<open>Q\<close>, \<open>I\<close>, \<open>F\<close>, in every state of the object: the test
  comes before the one of the connection, so the exception is raised also when the serial
  line is not connected. \<open>send_predefined_command\<close>, on a key that is not in the
  registry, raises nothing: it logs an error and returns \<open>None\<close>.
\<close>

theorem send_simple_command_value_error:
  "(send_simple_command s k wr rd = Inl ValueError \<longleftrightarrow> k \<notin> {''Q'', ''I'', ''F''})
   \<and> (k \<notin> fst ` set SMS_GAMER_COMMANDS_PARAMS \<longrightarrow>
        send_predefined_command s k wr rd = Inr (None, emit ERROR (CommandNotFound k) s))"
proof (intro conjI impI)
  show "send_simple_command s k wr rd = Inl ValueError \<longleftrightarrow> k \<notin> {''Q'', ''I'', ''F''}"
  proof (cases "map_of simple_commands_map k")
    case None
    then have "k \<notin> {''Q'', ''I'', ''F''}"
      using simple_commands_keys [of k] by simp
    with send_simple_command_unknown [OF None, of s wr rd] show ?thesis
      by simp
  next
    case (Some c)
    then have "k \<in> {''Q'', ''I'', ''F''}"
      using simple_commands_keys [of k] by simp
    moreover from send_simple_command_known [OF Some]
    have "send_simple_command s k wr rd \<noteq> Inl ValueError"
      by (metis Inl_Inr_False)
    ultimately show ?thesis
      by simp
  qed
next
  assume "k \<notin> fst ` set SMS_GAMER_COMMANDS_PARAMS"
  then have "map_of SMS_GAMER_COMMANDS_PARAMS k = None"
    using registry_keys [of k] by simp
  then show "send_predefined_command s k wr rd = Inr (None, emit ERROR (CommandNotFound k) s)"
    by (rule send_predefined_command_unknown)
qed

text \<open>
  The object before \<open>connect()\<close>, the key \<open>M\<close> (not a simple command) and the key
  \<open>X\<close> (not in the registry).
\<close>

theorem send_simple_command_value_error_witness:
  "''M'' \<notin> {''Q'', ''I'', ''F''}
   \<and> \<not> connected init_session
   \<and> send_simple_command init_session ''M'' None (Inr []) = Inl ValueError
   \<and> ''X'' \<notin> fst ` set SMS_GAMER_COMMANDS_PARAMS
   \<and> send_predefined_command init_session ''X'' None (Inr []) =
       Inr (None, emit ERROR (CommandNotFound ''X'') init_session)"
proof -
  have m: "''M'' \<notin> {''Q'', ''I'', ''F''}"
    by simp
  have x: "''X'' \<notin> fst ` set SMS_GAMER_COMMANDS_PARAMS"
    by (simp add: SMS_GAMER_COMMANDS_PARAMS_def)
  have d: "\<not> connected init_session"
    by (simp add: init_session_def)
  from send_simple_command_value_error [of init_session "''M''" None "Inr []"] m
  have a: "send_simple_command init_session ''M'' None (Inr []) = Inl ValueError"
    by simp
  from send_simple_command_value_error [of init_session "''X''" None "Inr []"] x
  have b: "send_predefined_command init_session ''X'' None (Inr []) =
       Inr (None, emit ERROR (CommandNotFound ''X'') init_session)"
    by simp
  from m d a x b show ?thesis
    by simp
qed

text \<open>
  C10 as stated fails: \<open>M\<close> is a registered command, the line is not connected, and
  \<open>send_simple_command\<close> does not return \<open>None\<close> (it raises \<open>ValueError\<close>).
\<close>

theorem send_simple_command_registered_counterexample:
  "''M'' \<in> fst ` set SMS_GAMER_COMMANDS_PARAMS
   \<and> \<not> connected init_session
   \<and> send_simple_command init_session ''M'' None (Inr []) \<noteq> Inr (None, init_session)"
proof -
  have "''M'' \<in> fst ` set SMS_GAMER_COMMANDS_PARAMS"
    by (simp add: SMS_GAMER_COMMANDS_PARAMS_def)
  moreover have "\<not> connected init_session"
    by (simp add: init_session_def)
  moreover have "map_of simple_commands_map ''M'' = None"
    by (simp add: simple_commands_map_def)
  then have "send_simple_command init_session ''M'' None (Inr []) = Inl ValueError"
    by (rule send_simple_command_unknown)
  ultimately show ?thesis
    by simp
qed

text \<open>
  C10, as the code has it. When the transport is not connected (the \<open>connected\<close> flag
  is false or there is no serial handle), \<open>send_simple_command\<close> on each of its own
  commands \<open>Q\<close>, \<open>I\<close>, \<open>F\<close>, and \<open>send_predefined_command\<close> on each key of the
  registry, return \<open>None\<close> without a write, a read or a pause: the fields of the object
  and the record of its calls are unchanged. \<open>send_simple_command\<close> logs nothing;
  \<open>send_predefined_command\<close> logs one error.
\<close>

theorem send_commands_disconnected:
  assumes off: "\<not> connected s \<or> serial s = None"
  shows "(k \<in> {''Q'', ''I'', ''F''} \<longrightarrow> send_simple_command s k wr rd = Inr (None, s))
   \<and> (k \<in> fst ` set SMS_GAMER_COMMANDS_PARAMS \<longrightarrow>
        send_predefined_command s k wr rd =
          Inr (None, s\<lparr>logged := logged s @ [(ERROR, SerialNotConnected)]\<rparr>))"
proof (intro conjI impI)
  assume "k \<in> {''Q'', ''I'', ''F''}"
  then have "map_of simple_commands_map k \<noteq> None"
    using simple_commands_keys [of k] by simp
  then obtain c where "map_of simple_commands_map k = Some c"
    by (cases "map_of simple_commands_map k") simp_all
  then show "send_simple_command s k wr rd = Inr (None, s)"
    using off by (rule send_simple_command_disconnected)
next
  assume "k \<in> fst ` set SMS_GAMER_COMMANDS_PARAMS"
  then have "map_of SMS_GAMER_COMMANDS_PARAMS k \<noteq> None"
    using registry_keys [of k] by simp
  then obtain c p1 p2 p3 p4 where "map_of SMS_GAMER_COMMANDS_PARAMS k = Some (c, p1, p2, p3, p4)"
    by (cases "map_of SMS_GAMER_COMMANDS_PARAMS k") auto
  then have "send_predefined_command s k wr rd = Inr (None, emit ERROR SerialNotConnected s)"
    using off by (rule send_predefined_command_disconnected)
  then show "send_predefined_command s k wr rd =
          Inr (None, s\<lparr>logged := logged s @ [(ERROR, SerialNotConnected)]\<rparr>)"
    by (simp only: emit_def)
qed

text \<open>
  The object before \<open>connect()\<close>, with the commands \<open>Q\<close> and \<open>R\<close>.
\<close>

theorem send_commands_disconnected_witness:
  "\<not> connected init_session
   \<and> serial init_session = None
   \<and> ''Q'' \<in> {''Q'', ''I'', ''F''}
   \<and> send_simple_command init_session ''Q'' None (Inr [0x0D]) = Inr (None, init_session)
   \<and> ''R'' \<in> fst ` set SMS_GAMER_COMMANDS_PARAMS
   \<and> send_predefined_command init_session ''R'' None (Inr [0x0D]) =
       Inr (None, init_session\<lparr>logged := logged init_session @ [(ERROR, SerialNotConnected)]\<rparr>)"
proof -
  have off: "\<not> connected init_session \<or> serial init_session = None"
    by (simp add: init_session_def)
  have q: "''Q'' \<in> {''Q'', ''I'', ''F''}"
    by simp
  have r: "''R'' \<in> fst ` set SMS_GAMER_COMMANDS_PARAMS"
    by (simp add: SMS_GAMER_COMMANDS_PARAMS_def)
  from send_commands_disconnected [OF off, of "''Q''" None "Inr [0x0D]"] q
  have a: "send_simple_command init_session ''Q'' None (Inr [0x0D]) = Inr (None, init_session)"
    by simp
  from send_commands_disconnected [OF off, of "''R''" None "Inr [0x0D]"] r
  have b: "send_predefined_command init_session ''R'' None (Inr [0x0D]) =
       Inr (None, init_session\<lparr>logged := logged init_session @ [(ERROR, SerialNotConnected)]\<rparr>)"
    by simp
  have c: "\<not> connected init_session" and n: "serial init_session = None"
    by (simp_all add: init_session_def)
  from c n q a r b show ?thesis
    by simp
qed

lemma truthy_JStr: "truthy (JStr k) \<longleftrightarrow> k \<noteq> []"
  by (simp add: truthy_def)

lemma registered_key_Some:
  "registered_key c = Inr (Some k) \<longleftrightarrow> c = JStr k \<and> map_of SMS_GAMER_COMMANDS_PARAMS k \<noteq> None"
  by (cases c) (auto simp add: registered_key_def)

text \<open>
  What \<open>_on_mqtt_message\<close> does with a payload that decodes as text. Unless the
  payload is a JSON object whose \<open>command\<close> is a key of the registry, the handler logs
  the message, logs one warning or error, and calls nothing: no serial write, no read, no
  publication.
\<close>

lemma on_mqtt_message_dropped:
  assumes dec: "payload msg = Decoded loaded"
    and unreg: "\<And>v c k. loaded = Inr v \<Longrightarrow> get_command v = Inr c \<Longrightarrow> truthy c \<Longrightarrow>
                  registered_key c \<noteq> Inr (Some k)"
  shows "\<exists>lvl m. (lvl = WARNING \<or> lvl = ERROR)
           \<and> on_mqtt_message s msg wr rd =
               Inr (emit lvl m (emit INFO (MessageReceived (topic msg)) s))"
proof -
  let ?s1 = "emit INFO (MessageReceived (topic msg)) s"
  have "(\<exists>e. dispatch_command ?s1 loaded wr rd = Inl e)
        \<or> (\<exists>m. dispatch_command ?s1 loaded wr rd = Inr (emit WARNING m ?s1))"
  proof (cases loaded)
    case (Inl e)
    then show ?thesis
      by (simp add: dispatch_command_def and_then_Inl)
  next
    case (Inr v)
    show ?thesis
    proof (cases "get_command v")
      case (Inl e)
      with Inr show ?thesis
        by (simp add: dispatch_command_def and_then_Inl and_then_Inr)
    next
      case c: (Inr c)
      show ?thesis
      proof (cases "truthy c")
        case False
        with Inr c show ?thesis
          by (intro disjI2 exI [of _ NoCommandKey]) (simp add: dispatch_command_def and_then_Inr)
      next
        case True
        show ?thesis
        proof (cases "registered_key c")
          case (Inl e)
          with Inr c True show ?thesis
            by (simp add: dispatch_command_def and_then_Inl and_then_Inr)
        next
          case r: (Inr reg)
          have "reg = None"
          proof (cases reg)
            case None
            then show ?thesis .
          next
            case (Some k)
            with r unreg [OF Inr c True, of k] show ?thesis
              by simp
          qed
          with Inr c True r show ?thesis
            by (intro disjI2 exI [of _ "CommandNotRecognized c"])
              (simp add: dispatch_command_def and_then_Inr)
        qed
      qed
    qed
  qed
  then show ?thesis
  proof
    assume "\<exists>e. dispatch_command ?s1 loaded wr rd = Inl e"
    then obtain e where e: "dispatch_command ?s1 loaded wr rd = Inl e" ..
    show ?thesis
    proof (cases "e = JSONDecodeError")
      case True
      with e dec have "on_mqtt_message s msg wr rd = Inr (emit ERROR JsonDecodeFailed ?s1)"
        by (simp add: on_mqtt_message_def Let_def)
      then show ?thesis
        by (intro exI [of _ ERROR] exI [of _ JsonDecodeFailed]) simp
    next
      case False
      with e dec have "on_mqtt_message s msg wr rd = Inr (emit ERROR (CommandProcessingError e) ?s1)"
        by (cases e) (simp_all add: on_mqtt_message_def Let_def)
      then show ?thesis
        by (intro exI [of _ ERROR] exI [of _ "CommandProcessingError e"]) simp
    qed
  next
    assume "\<exists>m. dispatch_command ?s1 loaded wr rd = Inr (emit WARNING m ?s1)"
    then obtain m where m: "dispatch_command ?s1 loaded wr rd = Inr (emit WARNING m ?s1)" ..
    with dec have "on_mqtt_message s msg wr rd = Inr (emit WARNING m ?s1)"
      by (simp add: on_mqtt_message_def Let_def)
    then show ?thesis
      by (intro exI [of _ WARNING] exI [of _ m]) simp
  qed
qed

lemma get_command_JStr:
  "get_command v = Inr (JStr k) \<longleftrightarrow> (\<exists>items. v = JObj items \<and> map_of items ''command'' = Some (JStr k))"
  by (cases v) (auto simp add: get_command_def split: option.splits)

text \<open>
  On a registered command the handler builds the frame; if the line is connected it
  writes the frame and, unless the write raises, waits one second and reads up to 64
  bytes; it publishes nothing, and it logs a reply that is not empty.
\<close>

lemma on_mqtt_message_sent:
  assumes dec: "payload msg = Decoded (Inr v)"
    and cmd: "get_command v = Inr (JStr k)"
    and reg: "map_of SMS_GAMER_COMMANDS_PARAMS k = Some (c, p1, p2, p3, p4)"
  defines "frame \<equiv> map word_of_int [c, p1, p2, p3, p4, calculate_checksum c p1 p2 p3 p4] @ [0x0D]"
  shows "\<exists>s'. on_mqtt_message s msg wr rd = Inr s'
           \<and> calls s' = calls s
               @ (if \<not> connected s \<or> serial s = None then []
                  else if wr = None then [SerialWrite frame, Sleep 1000, SerialRead 64]
                  else [SerialWrite frame])
           \<and> (connected s \<and> serial s \<noteq> None \<and> wr = None \<and> rd = Inr response \<and> response \<noteq> [] \<longrightarrow>
                (INFO, ResponseReceived response) \<in> set (logged s'))"
proof -
  from reg have "(k, c, p1, p2, p3, p4) \<in> set SMS_GAMER_COMMANDS_PARAMS"
    by (rule map_of_SomeD)
  then have ne: "k \<noteq> []"
    unfolding SMS_GAMER_COMMANDS_PARAMS_def by auto
  have rk: "registered_key (JStr k) = Inr (Some k)"
    using reg by (simp add: registered_key_Some)
  have b: "build_full_command c p1 p2 p3 p4 = Inr frame"
    unfolding frame_def by (rule build_full_command_Inr [OF registry_bytes [OF reg]])
  show ?thesis
    by (auto simp add: on_mqtt_message_def dispatch_command_def dec cmd rk ne truthy_JStr Let_def
        send_predefined_command_def reg b and_then_Inr split: option.split sum.split)
qed

text \<open>
  The dispatch, for every message whose payload decodes as text. Unless the
  payload is a JSON object whose \<open>command\<close> is a key of the registry (so: when it is not
  valid JSON, is not an object, has no \<open>command\<close> or an empty one, or names a command
  that is not registered), the handler logs the message, logs one warning or error, and
  calls nothing: no serial write. On a registered command it builds the frame; when the
  line is not connected it writes and reads nothing; when it is connected it writes the
  frame and, unless the write raises, waits the one second of the control commands and
  reads up to 64 bytes. It never publishes to MQTT, and it logs a reply that is not empty.
\<close>

lemma on_mqtt_message_dispatch:
  assumes dec: "payload msg = Decoded loaded"
  shows "(\<not> (\<exists>items k. loaded = Inr (JObj items) \<and> map_of items ''command'' = Some (JStr k)
                 \<and> k \<in> fst ` set SMS_GAMER_COMMANDS_PARAMS) \<longrightarrow>
            (\<exists>lvl m. (lvl = WARNING \<or> lvl = ERROR)
               \<and> on_mqtt_message s msg wr rd =
                   Inr (emit lvl m (emit INFO (MessageReceived (topic msg)) s))))
         \<and> (\<forall>items k. loaded = Inr (JObj items) \<and> map_of items ''command'' = Some (JStr k)
                 \<and> k \<in> fst ` set SMS_GAMER_COMMANDS_PARAMS \<longrightarrow>
            (\<exists>c p1 p2 p3 p4 frame s'.
               map_of SMS_GAMER_COMMANDS_PARAMS k = Some (c, p1, p2, p3, p4)
               \<and> build_full_command c p1 p2 p3 p4 = Inr frame
               \<and> on_mqtt_message s msg wr rd = Inr s'
               \<and> calls s' = calls s
                   @ (if \<not> connected s \<or> serial s = None then []
                      else if wr = None then [SerialWrite frame, Sleep 1000, SerialRead 64]
                      else [SerialWrite frame])
               \<and> (connected s \<and> serial s \<noteq> None \<and> wr = None \<and> rd = Inr response
                    \<and> response \<noteq> [] \<longrightarrow>
                    (INFO, ResponseReceived response) \<in> set (logged s'))))"
proof (intro conjI impI allI)
  assume none: "\<not> (\<exists>items k. loaded = Inr (JObj items) \<and> map_of items ''command'' = Some (JStr k)
                 \<and> k \<in> fst ` set SMS_GAMER_COMMANDS_PARAMS)"
  have "registered_key c \<noteq> Inr (Some k)"
    if l: "loaded = Inr v" and g: "get_command v = Inr c" and "truthy c" for v c k
  proof
    assume "registered_key c = Inr (Some k)"
    then have c: "c = JStr k" and r: "map_of SMS_GAMER_COMMANDS_PARAMS k \<noteq> None"
      by (simp_all add: registered_key_Some)
    from g c obtain items where "v = JObj items" "map_of items ''command'' = Some (JStr k)"
      using get_command_JStr [of v k] by auto
    moreover from r have "k \<in> fst ` set SMS_GAMER_COMMANDS_PARAMS"
      using registry_keys [of k] by simp
    ultimately show False
      using none l by simp
  qed
  with dec show "\<exists>lvl m. (lvl = WARNING \<or> lvl = ERROR)
               \<and> on_mqtt_message s msg wr rd =
                   Inr (emit lvl m (emit INFO (MessageReceived (topic msg)) s))"
    by (rule on_mqtt_message_dropped)
next
  fix items k
  assume a: "loaded = Inr (JObj items) \<and> map_of items ''command'' = Some (JStr k)
                 \<and> k \<in> fst ` set SMS_GAMER_COMMANDS_PARAMS"
  then have "map_of SMS_GAMER_COMMANDS_PARAMS k \<noteq> None"
    using registry_keys [of k] by simp
  then obtain c p1 p2 p3 p4 where reg: "map_of SMS_GAMER_COMMANDS_PARAMS k = Some (c, p1, p2, p3, p4)"
    by (cases "map_of SMS_GAMER_COMMANDS_PARAMS k") auto
  let ?frame = "map word_of_int [c, p1, p2, p3, p4, calculate_checksum c p1 p2 p3 p4] @ [0x0D] :: bytes"
  have b: "build_full_command c p1 p2 p3 p4 = Inr ?frame"
    by (rule build_full_command_Inr [OF registry_bytes [OF reg]])
  from a have d: "payload msg = Decoded (Inr (JObj items))"
    using dec by simp
  from a have g: "get_command (JObj items) = Inr (JStr k)"
    by (simp add: get_command_JStr)
  from on_mqtt_message_sent [OF d g reg, of s wr rd response]
  obtain s' where s': "on_mqtt_message s msg wr rd = Inr s'"
    "calls s' = calls s
       @ (if \<not> connected s \<or> serial s = None then []
          else if wr = None then [SerialWrite ?frame, Sleep 1000, SerialRead 64]
          else [SerialWrite ?frame])"
    "connected s \<and> serial s \<noteq> None \<and> wr = None \<and> rd = Inr response \<and> response \<noteq> [] \<longrightarrow>
       (INFO, ResponseReceived response) \<in> set (logged s')"
    by (elim exE conjE)
  show "\<exists>c p1 p2 p3 p4 frame s'.
               map_of SMS_GAMER_COMMANDS_PARAMS k = Some (c, p1, p2, p3, p4)
               \<and> build_full_command c p1 p2 p3 p4 = Inr frame
               \<and> on_mqtt_message s msg wr rd = Inr s'
               \<and> calls s' = calls s
                   @ (if \<not> connected s \<or> serial s = None then []
                      else if wr = None then [SerialWrite frame, Sleep 1000, SerialRead 64]
                      else [SerialWrite frame])
               \<and> (connected s \<and> serial s \<noteq> None \<and> wr = None \<and> rd = Inr response
                    \<and> response \<noteq> [] \<longrightarrow>
                    (INFO, ResponseReceived response) \<in> set (logged s'))"
    using reg b s' by (intro exI conjI)
qed


lemma registry_M: "map_of SMS_GAMER_COMMANDS_PARAMS ''M'' = Some (0x4D, 0xFF, 0xFF, 0xFF, 0xFF)"
  by (simp add: SMS_GAMER_COMMANDS_PARAMS_def)

lemma frame_M:
  "map word_of_int [0x4D, 0xFF, 0xFF, 0xFF, 0xFF, calculate_checksum 0x4D 0xFF 0xFF 0xFF 0xFF] @ [0x0D] =
     ([0x4D, 0xFF, 0xFF, 0xFF, 0xFF, 0xB7, 0x0D] :: bytes)"
  by (simp add: calculate_checksum_mod)

lemma checksum_M: "calculate_checksum 0x4D 0xFF 0xFF 0xFF 0xFF = 0xB7"
  by (simp add: calculate_checksum_mod)

lemma build_full_command_M:
  "build_full_command 0x4D 0xFF 0xFF 0xFF 0xFF = Inr [0x4D, 0xFF, 0xFF, 0xFF, 0xFF, 0xB7, 0x0D]"
  using build_full_command_Inr [OF registry_bytes [OF registry_M]] by (simp only: frame_M)

text \<open>
  The guards of \<open>send_predefined_command\<close> under the handler: the registered command
  \<open>M\<close> triggers no serial write when the line is not connected, and a write but neither
  the pause nor the read when the write raises.
\<close>

lemma on_mqtt_message_line_down:
  "''M'' \<in> fst ` set SMS_GAMER_COMMANDS_PARAMS
   \<and> map_sum id calls
        (on_mqtt_message (connected_session\<lparr>connected := False\<rparr>)
           \<lparr>topic = ''sms_gamer/ups/command'',
            payload = Decoded (Inr (JObj [(''command'', JStr ''M'')]))\<rparr>
           None (Inr [0x0D])) = Inr []
   \<and> map_sum id calls
        (on_mqtt_message connected_session
           \<lparr>topic = ''sms_gamer/ups/command'',
            payload = Decoded (Inr (JObj [(''command'', JStr ''M'')]))\<rparr>
           (Some SerialException) (Inr [0x0D])) =
       Inr [SerialWrite [0x4D, 0xFF, 0xFF, 0xFF, 0xFF, 0xB7, 0x0D]]"
proof (intro conjI)
  let ?msg = "\<lparr>topic = ''sms_gamer/ups/command'',
            payload = Decoded (Inr (JObj [(''command'', JStr ''M'')]))\<rparr>"
  let ?off = "connected_session\<lparr>connected := False\<rparr>"
  show "''M'' \<in> fst ` set SMS_GAMER_COMMANDS_PARAMS"
    by (simp add: SMS_GAMER_COMMANDS_PARAMS_def)
  have d: "payload ?msg = Decoded (Inr (JObj [(''command'', JStr ''M'')]))"
    by simp
  have g: "get_command (JObj [(''command'', JStr ''M'')]) = Inr (JStr ''M'')"
    by (simp add: get_command_def)
  have off: "\<not> connected ?off" "calls ?off = []"
    by (simp_all add: connected_session_def)
  have on: "connected connected_session" "serial connected_session \<noteq> None"
    "calls connected_session = []"
    by (simp_all add: connected_session_def)
  from on_mqtt_message_sent [OF d g registry_M, of ?off None "Inr [0x0D]" "[0x0D]"]
  obtain s1 where "on_mqtt_message ?off ?msg None (Inr [0x0D]) = Inr s1"
    and "calls s1 = calls ?off
       @ (if \<not> connected ?off \<or> serial ?off = None then []
          else if (None :: py_exception option) = None
          then [SerialWrite (map word_of_int [0x4D, 0xFF, 0xFF, 0xFF, 0xFF,
                  calculate_checksum 0x4D 0xFF 0xFF 0xFF 0xFF] @ [0x0D]), Sleep 1000, SerialRead 64]
          else [SerialWrite (map word_of_int [0x4D, 0xFF, 0xFF, 0xFF, 0xFF,
                  calculate_checksum 0x4D 0xFF 0xFF 0xFF 0xFF] @ [0x0D])])"
    by (elim exE conjE)
  then show "map_sum id calls (on_mqtt_message ?off ?msg None (Inr [0x0D])) = Inr []"
    using off by simp
  from on_mqtt_message_sent [OF d g registry_M, of connected_session "Some SerialException" "Inr [0x0D]" "[0x0D]"]
  obtain s2 where "on_mqtt_message connected_session ?msg (Some SerialException) (Inr [0x0D]) = Inr s2"
    and "calls s2 = calls connected_session
       @ (if \<not> connected connected_session \<or> serial connected_session = None then []
          else if Some SerialException = None
          then [SerialWrite (map word_of_int [0x4D, 0xFF, 0xFF, 0xFF, 0xFF,
                  calculate_checksum 0x4D 0xFF 0xFF 0xFF 0xFF] @ [0x0D]), Sleep 1000, SerialRead 64]
          else [SerialWrite (map word_of_int [0x4D, 0xFF, 0xFF, 0xFF, 0xFF,
                  calculate_checksum 0x4D 0xFF 0xFF 0xFF 0xFF] @ [0x0D])])"
    by (elim exE conjE)
  then show "map_sum id calls
        (on_mqtt_message connected_session ?msg (Some SerialException) (Inr [0x0D])) =
       Inr [SerialWrite [0x4D, 0xFF, 0xFF, 0xFF, 0xFF, 0xB7, 0x0D]]"
    using on by (simp add: checksum_M)
qed


text \<open>
  A payload that is not JSON, and the command \<open>M\<close> on a connected line that replies
  with one byte.
\<close>

lemma on_mqtt_message_dispatch_example:
  "payload \<lparr>topic = ''sms_gamer/ups/command'', payload = Decoded (Inl JSONDecodeError)\<rparr> =
     Decoded (Inl JSONDecodeError)
   \<and> (\<exists>lvl m. (lvl = WARNING \<or> lvl = ERROR)
         \<and> on_mqtt_message connected_session
              \<lparr>topic = ''sms_gamer/ups/command'', payload = Decoded (Inl JSONDecodeError)\<rparr>
              None (Inr []) =
            Inr (emit lvl m (emit INFO (MessageReceived ''sms_gamer/ups/command'') connected_session)))
   \<and> payload \<lparr>topic = ''sms_gamer/ups/command'',
               payload = Decoded (Inr (JObj [(''command'', JStr ''M'')]))\<rparr> =
     Decoded (Inr (JObj [(''command'', JStr ''M'')]))
   \<and> map_of [(''command'', JStr ''M'')] ''command'' = Some (JStr ''M'')
   \<and> ''M'' \<in> fst ` set SMS_GAMER_COMMANDS_PARAMS
   \<and> (\<exists>s'. on_mqtt_message connected_session
              \<lparr>topic = ''sms_gamer/ups/command'',
               payload = Decoded (Inr (JObj [(''command'', JStr ''M'')]))\<rparr>
              None (Inr [0x0D]) = Inr s'
         \<and> calls s' = [SerialWrite [0x4D, 0xFF, 0xFF, 0xFF, 0xFF, 0xB7, 0x0D], Sleep 1000, SerialRead 64]
         \<and> (INFO, ResponseReceived [0x0D]) \<in> set (logged s'))"
proof -
  let ?bad = "\<lparr>topic = ''sms_gamer/ups/command'', payload = Decoded (Inl JSONDecodeError)\<rparr>"
  let ?msg = "\<lparr>topic = ''sms_gamer/ups/command'',
               payload = Decoded (Inr (JObj [(''command'', JStr ''M'')]))\<rparr>"
  have p1: "payload ?bad = Decoded (Inl JSONDecodeError)"
    by simp
  have n: "\<not> (\<exists>items k. (Inl JSONDecodeError :: py_exception + json) = Inr (JObj items)
              \<and> map_of items ''command'' = Some (JStr k)
              \<and> k \<in> fst ` set SMS_GAMER_COMMANDS_PARAMS)"
    by simp
  from on_mqtt_message_dispatch [OF p1, of connected_session None "Inr []", THEN conjunct1, rule_format, OF n]
  have a: "\<exists>lvl m. (lvl = WARNING \<or> lvl = ERROR)
         \<and> on_mqtt_message connected_session ?bad None (Inr []) =
            Inr (emit lvl m (emit INFO (MessageReceived ''sms_gamer/ups/command'') connected_session))"
    by simp
  have p2: "payload ?msg = Decoded (Inr (JObj [(''command'', JStr ''M'')]))"
    by simp
  have k: "map_of [(''command'', JStr ''M'')] ''command'' = Some (JStr ''M'')"
    by simp
  have r: "''M'' \<in> fst ` set SMS_GAMER_COMMANDS_PARAMS"
    by (simp add: SMS_GAMER_COMMANDS_PARAMS_def)
  have prem: "(Inr (JObj [(''command'', JStr ''M'')]) :: py_exception + json) = Inr (JObj [(''command'', JStr ''M'')])
      \<and> map_of [(''command'', JStr ''M'')] ''command'' = Some (JStr ''M'')
      \<and> ''M'' \<in> fst ` set SMS_GAMER_COMMANDS_PARAMS"
    using k r by simp
  have on: "connected connected_session" "serial connected_session \<noteq> None"
    "calls connected_session = []"
    by (simp_all add: connected_session_def)
  from on_mqtt_message_dispatch [OF p2, of connected_session None "Inr [0x0D]" "[0x0D]",
      THEN conjunct2, rule_format, OF prem]
  obtain c q1 q2 q3 q4 frame s' where
    reg: "map_of SMS_GAMER_COMMANDS_PARAMS ''M'' = Some (c, q1, q2, q3, q4)"
    and b: "build_full_command c q1 q2 q3 q4 = Inr frame"
    and s': "on_mqtt_message connected_session ?msg None (Inr [0x0D]) = Inr s'"
    and c: "calls s' = calls connected_session
              @ (if \<not> connected connected_session \<or> serial connected_session = None then []
                 else if (None :: py_exception option) = None
                 then [SerialWrite frame, Sleep 1000, SerialRead 64]
                 else [SerialWrite frame])"
    and l: "connected connected_session \<and> serial connected_session \<noteq> None
              \<and> (None :: py_exception option) = None \<and> (Inr [0x0D] :: py_exception + bytes) = Inr [0x0D]
              \<and> [0x0D :: byte] \<noteq> [] \<longrightarrow>
            (INFO, ResponseReceived [0x0D]) \<in> set (logged s')"
    by (elim exE conjE)
  from reg have "c = 0x4D \<and> q1 = 0xFF \<and> q2 = 0xFF \<and> q3 = 0xFF \<and> q4 = 0xFF"
    by (simp add: registry_M)
  with b have f: "frame = [0x4D, 0xFF, 0xFF, 0xFF, 0xFF, 0xB7, 0x0D]"
    by (simp add: build_full_command_M)
  from c on f have c': "calls s' = [SerialWrite [0x4D, 0xFF, 0xFF, 0xFF, 0xFF, 0xB7, 0x0D], Sleep 1000, SerialRead 64]"
    by simp
  from l on have l': "(INFO, ResponseReceived [0x0D]) \<in> set (logged s')"
    by simp
  from s' c' l' have e: "\<exists>s'. on_mqtt_message connected_session ?msg None (Inr [0x0D]) = Inr s'
         \<and> calls s' = [SerialWrite [0x4D, 0xFF, 0xFF, 0xFF, 0xFF, 0xB7, 0x0D], Sleep 1000, SerialRead 64]
         \<and> (INFO, ResponseReceived [0x0D]) \<in> set (logged s')"
    by (intro exI conjI)
  from p1 a p2 k r e show ?thesis
    by (intro conjI)
qed

text \<open>
  On a working line, that is connected and with a write that succeeds, a registered
  command makes exactly the three calls: the write of its frame, the pause of one second
  and the read of up to 64 bytes. The handler logs the message, the sending, the reply if
  it is not empty (a warning otherwise), and that the command was sent.
\<close>

lemma on_mqtt_message_working_line:
  assumes dec: "payload msg = Decoded (Inr v)"
    and cmd: "get_command v = Inr (JStr k)"
    and reg: "map_of SMS_GAMER_COMMANDS_PARAMS k = Some (c, p1, p2, p3, p4)"
    and on: "connected s" "serial s \<noteq> None"
  defines "frame \<equiv> map word_of_int [c, p1, p2, p3, p4, calculate_checksum c p1 p2 p3 p4] @ [0x0D]"
  shows "on_mqtt_message s msg None (Inr response) =
           Inr (s\<lparr>calls := calls s @ [SerialWrite frame, Sleep 1000, SerialRead 64],
                  logged := logged s
                    @ [(INFO, MessageReceived (topic msg)),
                       (INFO, SendingPredefined k frame),
                       (if response \<noteq> [] then (INFO, ResponseReceived response)
                        else (WARNING, NoResponsePredefined k)),
                       (INFO, CommandSent k)]\<rparr>)"
proof -
  from reg have "(k, c, p1, p2, p3, p4) \<in> set SMS_GAMER_COMMANDS_PARAMS"
    by (rule map_of_SomeD)
  then have ne: "k \<noteq> []"
    unfolding SMS_GAMER_COMMANDS_PARAMS_def by auto
  have rk: "registered_key (JStr k) = Inr (Some k)"
    using reg by (simp add: registered_key_Some)
  have b: "build_full_command c p1 p2 p3 p4 = Inr frame"
    unfolding frame_def by (rule build_full_command_Inr [OF registry_bytes [OF reg]])
  show ?thesis
    using on
    by (auto simp add: on_mqtt_message_def dispatch_command_def dec cmd rk ne truthy_JStr Let_def
        send_predefined_command_def reg b and_then_Inr emit_def perform_def)
qed

text \<open>
  On a line that is not connected a registered command makes no call; the handler logs
  the message, the error of \<open>send_predefined_command\<close>, and that the command was sent.
\<close>

lemma on_mqtt_message_line_down_logged:
  assumes dec: "payload msg = Decoded (Inr v)"
    and cmd: "get_command v = Inr (JStr k)"
    and reg: "map_of SMS_GAMER_COMMANDS_PARAMS k = Some (c, p1, p2, p3, p4)"
    and off: "\<not> connected s \<or> serial s = None"
  shows "on_mqtt_message s msg wr rd =
           Inr (s\<lparr>logged := logged s
                    @ [(INFO, MessageReceived (topic msg)),
                       (ERROR, SerialNotConnected),
                       (INFO, CommandSent k)]\<rparr>)"
proof -
  from reg have "(k, c, p1, p2, p3, p4) \<in> set SMS_GAMER_COMMANDS_PARAMS"
    by (rule map_of_SomeD)
  then have ne: "k \<noteq> []"
    unfolding SMS_GAMER_COMMANDS_PARAMS_def by auto
  have rk: "registered_key (JStr k) = Inr (Some k)"
    using reg by (simp add: registered_key_Some)
  have b: "build_full_command c p1 p2 p3 p4 =
             Inr (map word_of_int [c, p1, p2, p3, p4, calculate_checksum c p1 p2 p3 p4] @ [0x0D])"
    by (rule build_full_command_Inr [OF registry_bytes [OF reg]])
  show ?thesis
    using off
    by (auto simp add: on_mqtt_message_def dispatch_command_def dec cmd rk ne truthy_JStr Let_def
        send_predefined_command_def reg b and_then_Inr emit_def)
qed

text \<open>
  C8, where the code departs from it. Every inbound message whose payload is not valid
  JSON is to be logged and dropped without a serial write, and the handler has a
  \<open>try\<close> with \<open>except json.JSONDecodeError\<close> and \<open>except Exception\<close> for that. A
  payload that is text but not JSON takes that path: the handler logs the message and
  the error, returns, and has called nothing. A payload that is not valid UTF-8 (the
  single byte \<open>FF\<close>, say) is not valid JSON either, but it does not reach the \<open>try\<close>:
  the handler decodes the payload already for its first log line, and the
  \<open>UnicodeDecodeError\<close> leaves the handler, in every state of the object and whatever
  the serial line would do. The handler returns no state: nothing is logged, nothing is
  caught.
\<close>

theorem on_mqtt_message_undecodable:
  "on_mqtt_message s \<lparr>topic = ''sms_gamer/ups/command'', payload = NotUtf8\<rparr> wr rd =
     Inl UnicodeDecodeError
   \<and> on_mqtt_message s
        \<lparr>topic = ''sms_gamer/ups/command'', payload = Decoded (Inl JSONDecodeError)\<rparr> wr rd =
     Inr (s\<lparr>logged := logged s
              @ [(INFO, MessageReceived ''sms_gamer/ups/command''), (ERROR, JsonDecodeFailed)]\<rparr>)"
proof
  show "on_mqtt_message s \<lparr>topic = ''sms_gamer/ups/command'', payload = NotUtf8\<rparr> wr rd =
     Inl UnicodeDecodeError"
    by (simp add: on_mqtt_message_def)
  show "on_mqtt_message s
        \<lparr>topic = ''sms_gamer/ups/command'', payload = Decoded (Inl JSONDecodeError)\<rparr> wr rd =
     Inr (s\<lparr>logged := logged s
              @ [(INFO, MessageReceived ''sms_gamer/ups/command''), (ERROR, JsonDecodeFailed)]\<rparr>)"
    by (simp add: on_mqtt_message_def dispatch_command_def and_then_Inl Let_def emit_def)
qed

end
